theory Spec2Isabelle
  imports Main
begin

section \<open>Data model\<close>

text \<open>
  The tables of the payment system, as the route handlers read and write them.
  A table is the list of its rows; a UUID is a natural number; a DATE is a day number,
  counted from 1970-01-01 (so \<open>CURRENT_DATE - 15\<close> is integer subtraction); an amount is an exact integer
  number of minor units (the NUMERIC columns; the rounding of JavaScript doubles in
  \<open>parseFloat\<close> is not modelled).
\<close>

type_synonym uuid = nat
type_synonym date = int
type_synonym money = int

datatype role = Godown | Purchase | Accounts | Owner

record user =
  user_id :: uuid
  user_role :: role

text \<open>
  What a handler answers when it does not succeed: \<open>Status c m\<close> is
  \<open>res.status(c).json({error: m})\<close>; \<open>Thrown m\<close> is \<open>throw new Error(m)\<close>
  (inside a transaction, which is then rolled back).
\<close>

datatype failure = Status nat string | Thrown string

record outward_bill =
  ob_id :: uuid
  ob_customer_id :: uuid
  ob_amount :: money
  ob_collected_amount :: money
  ob_due_date :: date
  ob_status :: string

section \<open>Receivables ageing (customer.routes.js)\<close>

text \<open>
  \<open>COALESCE(SUM(CASE WHEN c THEN amount - collected_amount ELSE 0 END), 0)\<close> over the
  selected rows: the sum over no rows is NULL, which COALESCE turns into 0.
\<close>

definition sum_case :: "(outward_bill \<Rightarrow> bool) \<Rightarrow> outward_bill list \<Rightarrow> money" where
  "sum_case c rows =
     sum_list (map (\<lambda>b. if c b then ob_amount b - ob_collected_amount b else 0) rows)"

text \<open>\<open>SELECT COUNT(*) FROM outward_bills WHERE c\<close>.\<close>

definition count_where :: "('a \<Rightarrow> bool) \<Rightarrow> 'a list \<Rightarrow> nat" where
  "count_where c rows = length (filter c rows)"

text \<open>The five CASE conditions of both ageing queries, in the order of the SELECT list.\<close>

datatype bucket = Current | Days_1_15 | Days_16_21 | Days_22_30 | Days_30_plus

fun in_bucket :: "bucket \<Rightarrow> date \<Rightarrow> outward_bill \<Rightarrow> bool" where
  "in_bucket Current today b = (ob_due_date b \<ge> today)"
| "in_bucket Days_1_15 today b = (ob_due_date b < today \<and> ob_due_date b \<ge> today - 15)"
| "in_bucket Days_16_21 today b = (ob_due_date b < today - 15 \<and> ob_due_date b \<ge> today - 21)"
| "in_bucket Days_22_30 today b = (ob_due_date b < today - 21 \<and> ob_due_date b \<ge> today - 30)"
| "in_bucket Days_30_plus today b = (ob_due_date b < today - 30)"

text \<open>\<open>WHERE status != 'cancelled' AND status != 'paid'\<close> (also written NOT IN).\<close>

definition ob_open :: "outward_bill \<Rightarrow> bool" where
  "ob_open b = (ob_status b \<noteq> ''cancelled'' \<and> ob_status b \<noteq> ''paid'')"

record ageing =
  current_amount :: money
  days_1_15 :: money
  days_16_21 :: money
  days_22_30 :: money
  days_30_plus :: money

text \<open>GET /api/customers/:id/receivables-ageing.\<close>

definition customer_receivables_ageing :: "outward_bill list \<Rightarrow> uuid \<Rightarrow> date \<Rightarrow> ageing" where
  "customer_receivables_ageing tbl cid today =
     (let rows = filter (\<lambda>b. ob_customer_id b = cid \<and> ob_open b) tbl in
      \<lparr> current_amount = sum_case (in_bucket Current today) rows,
        days_1_15 = sum_case (in_bucket Days_1_15 today) rows,
        days_16_21 = sum_case (in_bucket Days_16_21 today) rows,
        days_22_30 = sum_case (in_bucket Days_22_30 today) rows,
        days_30_plus = sum_case (in_bucket Days_30_plus today) rows \<rparr>)"

text \<open>
  The summary of GET /api/customers/:id over the same rows:
  \<open>COALESCE(SUM(amount - collected_amount), 0) as outstanding_amount\<close>.
\<close>

definition customer_outstanding :: "outward_bill list \<Rightarrow> uuid \<Rightarrow> money" where
  "customer_outstanding tbl cid =
     sum_case (\<lambda>b. True) (filter (\<lambda>b. ob_customer_id b = cid \<and> ob_open b) tbl)"

record ageing_summary =
  s_current_amount :: money
  s_current_count :: nat
  s_days_15_amount :: money
  s_days_15_count :: nat
  s_days_21_amount :: money
  s_days_21_count :: nat
  s_days_30_amount :: money
  s_days_30_count :: nat
  s_days_30_plus_amount :: money
  s_days_30_plus_count :: nat

text \<open>
  GET /api/outward/receivables-ageing: the amounts are sums over the open rows, the counts
  are scalar subqueries over the whole table with the same condition and the same status
  filter.
\<close>

definition receivables_ageing :: "outward_bill list \<Rightarrow> date \<Rightarrow> ageing_summary" where
  "receivables_ageing tbl today =
     (let rows = filter ob_open tbl in
      \<lparr> s_current_amount = sum_case (in_bucket Current today) rows,
        s_current_count = count_where (\<lambda>b. in_bucket Current today b \<and> ob_open b) tbl,
        s_days_15_amount = sum_case (in_bucket Days_1_15 today) rows,
        s_days_15_count = count_where (\<lambda>b. in_bucket Days_1_15 today b \<and> ob_open b) tbl,
        s_days_21_amount = sum_case (in_bucket Days_16_21 today) rows,
        s_days_21_count = count_where (\<lambda>b. in_bucket Days_16_21 today b \<and> ob_open b) tbl,
        s_days_30_amount = sum_case (in_bucket Days_22_30 today) rows,
        s_days_30_count = count_where (\<lambda>b. in_bucket Days_22_30 today b \<and> ob_open b) tbl,
        s_days_30_plus_amount = sum_case (in_bucket Days_30_plus today) rows,
        s_days_30_plus_count = count_where (\<lambda>b. in_bucket Days_30_plus today b \<and> ob_open b) tbl \<rparr>)"

text \<open>
  \<open>total_outstanding\<close> of GET /api/outward/summary:
  \<open>SELECT COALESCE(SUM(amount - collected_amount), 0) FROM outward_bills
  WHERE status != 'cancelled' AND status != 'paid'\<close>.
\<close>

definition total_outstanding :: "outward_bill list \<Rightarrow> money" where
  "total_outstanding tbl = sum_case (\<lambda>b. True) (filter ob_open tbl)"

text \<open>The bucket a due date falls in, read off the five conditions.\<close>

definition bucket_of :: "date \<Rightarrow> outward_bill \<Rightarrow> bucket list" where
  "bucket_of today b =
     filter (\<lambda>k. in_bucket k today b) [Current, Days_1_15, Days_16_21, Days_22_30, Days_30_plus]"

section \<open>Ledger tables\<close>

datatype bill_status = B_active | B_cancelled

datatype pay_status = PS_open | PS_partial | PS_paid

record vendor =
  v_id :: uuid
  v_name :: string

record inward_bill =
  ib_id :: uuid
  ib_vendor_id :: uuid
  ib_bill_number :: string
  ib_invoice_date :: date
  ib_receiving_date :: date
  ib_amount :: money
  ib_paid_amount :: money
  ib_credit_days :: int
  ib_due_date :: date
  ib_checked_by :: string
  ib_remarks :: string
  ib_bill_scan_url :: string
  ib_status :: bill_status
  ib_payment_status :: pay_status
  ib_version :: nat

datatype proposal_status =
  Draft | Submitted | Under_review | Approved | Partial_approved | Rejected | Completed

datatype accounts_status = A_pending | A_approved | A_held

datatype owner_status = O_pending | O_approved | O_deferred | O_rejected

datatype item_status =
  Proposed | Accounts_approved | Accounts_held | Owner_approved | Owner_deferred
  | Owner_rejected | Carry_forward | Item_paid

record proposal =
  p_id :: uuid
  p_payment_date :: date
  p_total_amount :: money
  p_status :: proposal_status
  p_created_by :: uuid

record proposal_item =
  pi_id :: uuid
  pi_proposal_id :: uuid
  pi_bill_id :: uuid
  pi_proposed_amount :: money
  pi_accounts_status :: accounts_status
  pi_accounts_amount :: "money option"
  pi_owner_status :: owner_status
  pi_owner_amount :: "money option"
  pi_status :: item_status

datatype payment_state = Pay_pending | Pay_processed | Pay_confirmed

datatype detail_status = D_pending | D_confirmed

record payment =
  pay_id :: uuid
  pay_proposal_id :: "uuid option"
  pay_total_amount :: money
  pay_bank_account_id :: uuid
  pay_status :: payment_state
  pay_created_by :: uuid

record payment_detail =
  pd_id :: uuid
  pd_payment_id :: uuid
  pd_bill_id :: uuid
  pd_proposal_item_id :: "uuid option"
  pd_amount :: money
  pd_utr_number :: "string option"
  pd_status :: detail_status

text \<open>
  The database: one list of rows per table, and the next UUID the database hands out
  (\<open>next_id\<close>; every INSERT takes a fresh one). Generated numbers, timestamps, reasons
  and remarks of proposals and payments are left out: no handler below branches on them.
\<close>

record db =
  vendors :: "vendor list"
  inward_bills :: "inward_bill list"
  outward_bills :: "outward_bill list"
  proposals :: "proposal list"
  proposal_items :: "proposal_item list"
  payments :: "payment list"
  payment_details :: "payment_detail list"
  next_id :: uuid

text \<open>\<open>UPDATE t SET ... WHERE c\<close> and \<open>DELETE FROM t WHERE c\<close> on a table.\<close>

definition update_where :: "('a \<Rightarrow> bool) \<Rightarrow> ('a \<Rightarrow> 'a) \<Rightarrow> 'a list \<Rightarrow> 'a list" where
  "update_where c f rows = map (\<lambda>r. if c r then f r else r) rows"

definition delete_where :: "('a \<Rightarrow> bool) \<Rightarrow> 'a list \<Rightarrow> 'a list" where
  "delete_where c rows = filter (\<lambda>r. \<not> c r) rows"

text \<open>
  Modelled from the spec: \<open>transaction\<close> of config/database.js, which is not under src/.
  Section 5 of the spec: a mutation that touches more than one record runs inside a single
  atomic transaction boundary, either all rows commit or none do. So the writes of the
  callback are kept when it returns and dropped when it throws.
\<close>

definition transaction :: "(db \<Rightarrow> failure + db \<times> 'a) \<Rightarrow> db \<Rightarrow> db \<times> (failure + 'a)" where
  "transaction body s = (case body s of Inl e \<Rightarrow> (s, Inl e) | Inr (s', r) \<Rightarrow> (s', Inr r))"

text \<open>The middleware \<open>authorize(...allowedRoles)\<close>: \<open>allowedRoles.includes(req.user.role)\<close>.\<close>

definition authorize :: "role list \<Rightarrow> user \<Rightarrow> bool" where
  "authorize allowedRoles u = (user_role u \<in> set allowedRoles)"

definition access_denied :: failure where
  "access_denied = Status 403 ''Access denied''"

text \<open>JavaScript truthiness of an optional string: neither undefined/null nor empty.\<close>

definition truthy :: "string option \<Rightarrow> bool" where
  "truthy x = (case x of None \<Rightarrow> False | Some v \<Rightarrow> v \<noteq> [])"

section \<open>Inward bills (the inward routes of proposal.routes.js)\<close>

text \<open>
  \<open>const dueDate = new Date(invoice_date); dueDate.setDate(dueDate.getDate() + credit_days)\<close>,
  then the date part of \<open>dueDate.toISOString()\<close>: on day numbers, the sum. (The time zone
  of the server, which \<open>getDate\<close> and \<open>toISOString\<close> read differently, is not modelled:
  the sum is what the code computes on a server that runs in UTC.)
\<close>

definition calculate_due_date :: "date \<Rightarrow> int \<Rightarrow> date" where
  "calculate_due_date invoice_date credit_days = invoice_date + credit_days"

text \<open>
  A JavaScript \<open>Date\<close> holds at most 100,000,000 days on either side of 1970-01-01;
  beyond that it is invalid and \<open>toISOString\<close> throws a RangeError.
\<close>

definition date_in_range :: "date \<Rightarrow> bool" where
  "date_in_range d = (- 100000000 \<le> d \<and> d \<le> 100000000)"

definition invalid_time :: failure where
  "invalid_time = Thrown ''Invalid time value''"

text \<open>
  The sanitizer \<open>trim()\<close> of the validators: it strips the whitespace at both ends of a
  string and puts the result in the place of the field. (Strings are byte strings here, so
  the whitespace is the ASCII one: space, tab, line feed, vertical tab, form feed,
  carriage return.)
\<close>

definition is_space :: "char \<Rightarrow> bool" where
  "is_space c = (c \<in> set [CHR '' '', CHR 0x09, CHR 0x0A, CHR 0x0B, CHR 0x0C, CHR 0x0D])"

definition trim :: "string \<Rightarrow> string" where
  "trim v = rev (dropWhile is_space (rev (dropWhile is_space v)))"

record create_inward_req =
  ci_vendor_id :: uuid
  ci_bill_number :: string
  ci_invoice_date :: date
  ci_receiving_date :: date
  ci_amount :: money
  ci_credit_days :: int
  ci_checked_by :: string
  ci_remarks :: string
  ci_bill_scan_url :: string

text \<open>
  \<open>validationRules.createInwardBill\<close>. First the sanitizers: \<open>requiredString\<close> trims
  \<open>bill_number\<close> and \<open>checked_by\<close>, \<open>optionalString\<close> trims \<open>remarks\<close>; the handler reads
  the trimmed fields. Then the checks, on the trimmed fields: \<open>bill_number\<close> is not empty
  and has 1..50 characters, \<open>checked_by\<close> 1..100, \<open>remarks\<close> at most 500; \<open>amount\<close> is a
  float \<open>\<ge> 0\<close> and \<open>credit_days\<close> an integer in 0..365.
\<close>

definition sanitize_create_inward :: "create_inward_req \<Rightarrow> create_inward_req" where
  "sanitize_create_inward r =
     r\<lparr> ci_bill_number := trim (ci_bill_number r), ci_checked_by := trim (ci_checked_by r),
        ci_remarks := trim (ci_remarks r) \<rparr>"

definition valid_create_inward :: "create_inward_req \<Rightarrow> bool" where
  "valid_create_inward r =
     (1 \<le> length (ci_bill_number r) \<and> length (ci_bill_number r) \<le> 50
      \<and> 0 \<le> ci_amount r
      \<and> 0 \<le> ci_credit_days r \<and> ci_credit_days r \<le> 365
      \<and> 1 \<le> length (ci_checked_by r) \<and> length (ci_checked_by r) \<le> 100
      \<and> length (ci_remarks r) \<le> 500)"

text \<open>
  Modelled from the spec: the column defaults of \<open>inward_bills\<close>, whose schema is not under
  src/. Section 3: a new bill is active, nothing is paid on it (payment status open), and
  it carries a version counter.
\<close>

definition new_inward_bill :: "uuid \<Rightarrow> create_inward_req \<Rightarrow> date \<Rightarrow> inward_bill" where
  "new_inward_bill i r due =
     \<lparr> ib_id = i, ib_vendor_id = ci_vendor_id r, ib_bill_number = ci_bill_number r,
       ib_invoice_date = ci_invoice_date r, ib_receiving_date = ci_receiving_date r,
       ib_amount = ci_amount r, ib_paid_amount = 0, ib_credit_days = ci_credit_days r,
       ib_due_date = due, ib_checked_by = ci_checked_by r, ib_remarks = ci_remarks r,
       ib_bill_scan_url = ci_bill_scan_url r, ib_status = B_active,
       ib_payment_status = PS_open, ib_version = 1 \<rparr>"

text \<open>POST /api/inward.\<close>

definition create_inward_bill :: "db \<Rightarrow> user \<Rightarrow> create_inward_req \<Rightarrow> db \<times> (failure + inward_bill)" where
  "create_inward_bill s u body =
     (let r = sanitize_create_inward body in
      if \<not> authorize [Godown, Owner] u then (s, Inl access_denied)
      else if \<not> valid_create_inward r then (s, Inl (Status 400 ''Validation failed''))
      else
        let dueDate = calculate_due_date (ci_invoice_date r) (ci_credit_days r);
            b = new_inward_bill (next_id s) r dueDate
        in if \<not> date_in_range dueDate then (s, Inl invalid_time)
           else (s\<lparr>inward_bills := inward_bills s @ [b], next_id := Suc (next_id s)\<rparr>, Inr b))"

text \<open>
  The body of PUT /api/inward/:id: every allowed field is optional (\<open>None\<close> is
  \<open>undefined\<close>). The body is not validated.
\<close>

record update_inward_req =
  up_bill_number :: "string option"
  up_invoice_date :: "date option"
  up_receiving_date :: "date option"
  up_amount :: "money option"
  up_credit_days :: "int option"
  up_checked_by :: "string option"
  up_remarks :: "string option"
  up_bill_scan_url :: "string option"

text \<open>The loop over \<open>allowedFields\<close>: one SET clause for every field that is not undefined.\<close>

definition set_allowed_fields :: "update_inward_req \<Rightarrow> inward_bill \<Rightarrow> inward_bill" where
  "set_allowed_fields upd b =
     b\<lparr> ib_bill_number := (case up_bill_number upd of None \<Rightarrow> ib_bill_number b | Some v \<Rightarrow> v),
        ib_invoice_date := (case up_invoice_date upd of None \<Rightarrow> ib_invoice_date b | Some v \<Rightarrow> v),
        ib_receiving_date := (case up_receiving_date upd of None \<Rightarrow> ib_receiving_date b | Some v \<Rightarrow> v),
        ib_amount := (case up_amount upd of None \<Rightarrow> ib_amount b | Some v \<Rightarrow> v),
        ib_credit_days := (case up_credit_days upd of None \<Rightarrow> ib_credit_days b | Some v \<Rightarrow> v),
        ib_checked_by := (case up_checked_by upd of None \<Rightarrow> ib_checked_by b | Some v \<Rightarrow> v),
        ib_remarks := (case up_remarks upd of None \<Rightarrow> ib_remarks b | Some v \<Rightarrow> v),
        ib_bill_scan_url := (case up_bill_scan_url upd of None \<Rightarrow> ib_bill_scan_url b | Some v \<Rightarrow> v) \<rparr>"

definition no_set_clause :: "update_inward_req \<Rightarrow> bool" where
  "no_set_clause upd =
     (up_bill_number upd = None \<and> up_invoice_date upd = None \<and> up_receiving_date upd = None
      \<and> up_amount upd = None \<and> up_credit_days upd = None \<and> up_checked_by upd = None
      \<and> up_remarks upd = None \<and> up_bill_scan_url upd = None)"

text \<open>
  \<open>if (updates.invoice_date || updates.credit_days)\<close>: a date is truthy when it is given,
  a number when it is given and is not 0.
\<close>

definition recalculates :: "update_inward_req \<Rightarrow> bool" where
  "recalculates upd =
     (case up_invoice_date upd of
        Some d \<Rightarrow> True
      | None \<Rightarrow> (case up_credit_days upd of None \<Rightarrow> False | Some n \<Rightarrow> n \<noteq> 0))"

text \<open>
  \<open>const invoiceDate = updates.invoice_date || existing.rows[0].invoice_date;
  const creditDays = updates.credit_days ?? existing.rows[0].credit_days\<close>.
\<close>

definition recalculated_due_date :: "update_inward_req \<Rightarrow> inward_bill \<Rightarrow> date" where
  "recalculated_due_date upd existing =
     (let invoiceDate = (case up_invoice_date upd of None \<Rightarrow> ib_invoice_date existing | Some d \<Rightarrow> d);
          creditDays = (case up_credit_days upd of None \<Rightarrow> ib_credit_days existing | Some n \<Rightarrow> n)
      in calculate_due_date invoiceDate creditDays)"

text \<open>
  PUT /api/inward/:id. The due date is computed, and a date out of range thrown, before
  the check that a field was given. It answers the first updated row.
\<close>

definition update_inward_bill ::
  "db \<Rightarrow> user \<Rightarrow> uuid \<Rightarrow> update_inward_req \<Rightarrow> db \<times> (failure + inward_bill)" where
  "update_inward_bill s u i upd =
     (if \<not> authorize [Owner] u then (s, Inl access_denied)
      else case find (\<lambda>b. ib_id b = i) (inward_bills s) of
        None \<Rightarrow> (s, Inl (Status 404 ''Bill not found''))
      | Some existing \<Rightarrow>
          if ib_status existing = B_cancelled then (s, Inl (Status 400 ''Cannot update cancelled bill''))
          else if ib_payment_status existing = PS_paid
            then (s, Inl (Status 400 ''Cannot update fully paid bill''))
          else if recalculates upd \<and> \<not> date_in_range (recalculated_due_date upd existing)
            then (s, Inl invalid_time)
          else if no_set_clause upd then (s, Inl (Status 400 ''No valid fields to update''))
          else
            let write = (\<lambda>b.
                  (let b1 = set_allowed_fields upd b;
                       b2 = (if recalculates upd
                             then b1\<lparr>ib_due_date := recalculated_due_date upd existing\<rparr> else b1)
                   in b2\<lparr>ib_version := ib_version b + 1\<rparr>))
            in (s\<lparr>inward_bills := update_where (\<lambda>b. ib_id b = i) write (inward_bills s)\<rparr>,
                Inr (write existing)))"

text \<open>
  DELETE /api/inward/:id (the columns \<open>cancelled_at\<close>, \<open>cancelled_by\<close> and \<open>cancel_reason\<close>
  are not part of the bill record here). It answers the id of the cancelled bill.
\<close>

definition cancel_inward_bill :: "db \<Rightarrow> user \<Rightarrow> uuid \<Rightarrow> string option \<Rightarrow> db \<times> (failure + uuid)" where
  "cancel_inward_bill s u i reason =
     (if \<not> authorize [Owner] u then (s, Inl access_denied)
      else if \<not> truthy reason then (s, Inl (Status 400 ''Cancellation reason is required''))
      else case find (\<lambda>b. ib_id b = i) (inward_bills s) of
        None \<Rightarrow> (s, Inl (Status 404 ''Bill not found''))
      | Some existing \<Rightarrow>
          if ib_paid_amount existing > 0 then (s, Inl (Status 400 ''Cannot cancel bill with payments''))
          else (s\<lparr>inward_bills :=
                    update_where (\<lambda>b. ib_id b = i) (\<lambda>b. b\<lparr>ib_status := B_cancelled\<rparr>) (inward_bills s)\<rparr>,
                Inr i))"

section \<open>Proposals (proposal.routes.js)\<close>

text \<open>
  GET /api/proposals/available-bills. The subquery of the WHERE clause: an item of the
  bill, joined to its proposal, with the proposal's status not in (rejected, completed)
  and the item's status not in (owner_rejected, paid).
\<close>

definition committed_item :: "db \<Rightarrow> inward_bill \<Rightarrow> proposal_item \<Rightarrow> bool" where
  "committed_item s ib it =
     (pi_bill_id it = ib_id ib
      \<and> list_ex (\<lambda>p. pi_proposal_id it = p_id p
                      \<and> p_status p \<noteq> Rejected \<and> p_status p \<noteq> Completed) (proposals s)
      \<and> pi_status it \<noteq> Owner_rejected \<and> pi_status it \<noteq> Item_paid)"

definition base_where :: "db \<Rightarrow> inward_bill \<Rightarrow> bool" where
  "base_where s ib =
     (ib_status ib = B_active
      \<and> ib_payment_status ib \<noteq> PS_paid
      \<and> \<not> list_ex (committed_item s ib) (proposal_items s))"

text \<open>The WHERE clause that \<open>filter === 'carry_forward'\<close> puts in the place of the other.\<close>

definition carry_forward_where :: "db \<Rightarrow> inward_bill \<Rightarrow> bool" where
  "carry_forward_where s ib =
     (ib_status ib = B_active
      \<and> ib_payment_status ib \<noteq> PS_paid
      \<and> list_ex (\<lambda>it. pi_bill_id it = ib_id ib \<and> pi_status it = Carry_forward) (proposal_items s))"

text \<open>
  The WHERE clause as the handler builds it from \<open>vendor_id\<close> and \<open>filter\<close>, with
  \<open>CURRENT_DATE\<close> as \<open>today\<close>. \<open>BETWEEN\<close> is inclusive at both ends.
\<close>

definition where_clause :: "db \<Rightarrow> uuid option \<Rightarrow> string option \<Rightarrow> date \<Rightarrow> inward_bill \<Rightarrow> bool" where
  "where_clause s vendorId flt today ib =
     (if flt = Some ''carry_forward'' then carry_forward_where s ib
      else
        base_where s ib
        \<and> (case vendorId of None \<Rightarrow> True | Some v \<Rightarrow> ib_vendor_id ib = v)
        \<and> (if flt = Some ''overdue'' then ib_due_date ib < today
           else if flt = Some ''due_today'' then ib_due_date ib = today
           else if flt = Some ''due_week'' then today \<le> ib_due_date ib \<and> ib_due_date ib \<le> today + 7
           else True))"

text \<open>
  \<open>FROM inward_bills ib JOIN vendors v ON ib.vendor_id = v.id\<close>: one row for every
  vendor row the bill refers to (the LEFT JOIN to users never drops a row).
\<close>

definition join_vendor :: "vendor list \<Rightarrow> inward_bill \<Rightarrow> inward_bill list" where
  "join_vendor vs ib = map (\<lambda>v. ib) (filter (\<lambda>v. ib_vendor_id ib = v_id v) vs)"

text \<open>
  The rows of the answer, as the bills they show, \<open>ORDER BY ib.due_date ASC\<close>. With
  \<open>filter=carry_forward\<close> and a \<open>vendor_id\<close>, the query text has no placeholder left while
  \<open>params\<close> still holds the vendor id, which the database refuses.
\<close>

definition available_bills ::
  "db \<Rightarrow> uuid option \<Rightarrow> string option \<Rightarrow> date \<Rightarrow> failure + inward_bill list" where
  "available_bills s vendorId flt today =
     (if flt = Some ''carry_forward'' \<and> vendorId \<noteq> None
      then Inl (Thrown ''bind message supplies 1 parameters, but prepared statement requires 0'')
      else Inr (sort_key ib_due_date
                  (concat (map (join_vendor (vendors s))
                             (filter (where_clause s vendorId flt today) (inward_bills s))))))"

record item_req =
  ir_bill_id :: uuid
  ir_proposed_amount :: money

record create_proposal_req =
  cp_payment_date :: date
  cp_items :: "item_req list"

text \<open>
  \<open>validationRules.createProposal\<close>: \<open>items\<close> is an array of at least one entry, every
  \<open>proposed_amount\<close> a float \<open>\<ge> 0\<close>.
\<close>

definition valid_create_proposal :: "create_proposal_req \<Rightarrow> bool" where
  "valid_create_proposal r =
     (cp_items r \<noteq> [] \<and> list_all (\<lambda>it. 0 \<le> ir_proposed_amount it) (cp_items r))"

text \<open>
  Modelled from the spec: the column defaults of \<open>proposals\<close> and \<open>proposal_items\<close>, whose
  schema is not under src/. Section 4.3: a proposal starts as a draft; an item starts as
  proposed, with both approval tracks pending and no accounts or owner amount.
\<close>

definition new_proposal :: "uuid \<Rightarrow> date \<Rightarrow> money \<Rightarrow> uuid \<Rightarrow> proposal" where
  "new_proposal i payment_date total_amount creator =
     \<lparr> p_id = i, p_payment_date = payment_date, p_total_amount = total_amount,
       p_status = Draft, p_created_by = creator \<rparr>"

definition new_proposal_item :: "uuid \<Rightarrow> uuid \<Rightarrow> item_req \<Rightarrow> proposal_item" where
  "new_proposal_item i pid r =
     \<lparr> pi_id = i, pi_proposal_id = pid, pi_bill_id = ir_bill_id r,
       pi_proposed_amount = ir_proposed_amount r,
       pi_accounts_status = A_pending, pi_accounts_amount = None,
       pi_owner_status = O_pending, pi_owner_amount = None, pi_status = Proposed \<rparr>"

text \<open>
  POST /api/proposals. The total is \<open>items.reduce((sum, item) => sum +
  parseFloat(item.proposed_amount), 0)\<close>; the proposal takes the next id, the items the
  ids after it, in the order of the request.
\<close>

definition create_proposal :: "db \<Rightarrow> user \<Rightarrow> create_proposal_req \<Rightarrow> db \<times> (failure + proposal)" where
  "create_proposal s u r =
     (if \<not> authorize [Purchase, Owner] u then (s, Inl access_denied)
      else if \<not> valid_create_proposal r then (s, Inl (Status 400 ''Validation failed''))
      else transaction (\<lambda>s.
        let totalAmount = foldl (\<lambda>acc item. acc + ir_proposed_amount item) 0 (cp_items r);
            prop = new_proposal (next_id s) (cp_payment_date r) totalAmount (user_id u);
            its = map (\<lambda>(k, item). new_proposal_item (Suc (next_id s) + k) (p_id prop) item)
                    (enumerate 0 (cp_items r))
        in Inr (s\<lparr> proposals := proposals s @ [prop],
                   proposal_items := proposal_items s @ its,
                   next_id := Suc (next_id s) + length (cp_items r) \<rparr>, prop)) s)"

text \<open>
  POST /api/proposals/:id/submit: one UPDATE with
  \<open>WHERE id = $1 AND status = 'draft' AND created_by = $2\<close>; no row updated is the
  answer 400. It answers the first updated row.
\<close>

definition submit_proposal :: "db \<Rightarrow> user \<Rightarrow> uuid \<Rightarrow> db \<times> (failure + proposal)" where
  "submit_proposal s u i =
     (if \<not> authorize [Purchase, Owner] u then (s, Inl access_denied)
      else
        let hit = (\<lambda>p. p_id p = i \<and> p_status p = Draft \<and> p_created_by p = user_id u);
            write = (\<lambda>p. p\<lparr>p_status := Submitted\<rparr>)
        in case find hit (proposals s) of
             None \<Rightarrow> (s, Inl (Status 400 ''Cannot submit this proposal''))
           | Some p \<Rightarrow> (s\<lparr>proposals := update_where hit write (proposals s)\<rparr>, Inr (write p)))"

text \<open>An entry of the \<open>items\<close> array of the accounts and owner actions.\<close>

record decision =
  d_item_id :: uuid
  d_action :: string
  d_amount :: "money option"

text \<open>
  The loop of POST /api/proposals/:id/accounts-action over the entries, on the table
  \<open>proposal_items\<close>; an action outside approve, hold, reject throws.
\<close>

fun accounts_loop :: "decision list \<Rightarrow> proposal_item list \<Rightarrow> failure + proposal_item list" where
  "accounts_loop [] its = Inr its"
| "accounts_loop (d # ds) its =
     (if d_action d \<notin> set [''approve'', ''hold'', ''reject'']
      then Inl (Thrown (''Invalid action: '' @ d_action d))
      else
        let accountsStatus = (if d_action d = ''approve'' then A_approved
                              else if d_action d = ''hold'' then A_held else A_pending);
            itemStatus = (if d_action d = ''approve'' then Accounts_approved
                          else if d_action d = ''hold'' then Accounts_held else Proposed)
        in accounts_loop ds
             (update_where (\<lambda>it. pi_id it = d_item_id d)
                (\<lambda>it. it\<lparr> pi_accounts_status := accountsStatus, pi_accounts_amount := d_amount d,
                          pi_status := itemStatus \<rparr>) its))"

text \<open>\<open>None\<close> for \<open>items\<close> is a body without an \<open>items\<close> array.\<close>

definition accounts_action :: "db \<Rightarrow> user \<Rightarrow> uuid \<Rightarrow> decision list option \<Rightarrow> db \<times> (failure + unit)" where
  "accounts_action s u i items =
     (if \<not> authorize [Accounts, Owner] u then (s, Inl access_denied)
      else case items of
        None \<Rightarrow> (s, Inl (Status 400 ''Items array is required''))
      | Some ds \<Rightarrow> transaction (\<lambda>s.
          case accounts_loop ds (proposal_items s) of
            Inl e \<Rightarrow> Inl e
          | Inr its \<Rightarrow>
              Inr (s\<lparr> proposal_items := its,
                       proposals := update_where (\<lambda>p. p_id p = i)
                                      (\<lambda>p. p\<lparr>p_status := Under_review\<rparr>) (proposals s) \<rparr>, ())) s)"

text \<open>
  The loop of POST /api/proposals/:id/owner-action, with its two flags \<open>hasApproved\<close> and
  \<open>hasDeferred\<close>; a deferred item gets a second UPDATE that sets its status to
  carry_forward.
\<close>

fun owner_loop ::
  "decision list \<Rightarrow> proposal_item list \<times> bool \<times> bool \<Rightarrow> failure + proposal_item list \<times> bool \<times> bool" where
  "owner_loop [] st = Inr st"
| "owner_loop (d # ds) (its, hasApproved, hasDeferred) =
     (if d_action d \<notin> set [''approve'', ''defer'', ''reject'']
      then Inl (Thrown (''Invalid action: '' @ d_action d))
      else
        let ownerStatus = (if d_action d = ''approve'' then O_approved
                           else if d_action d = ''defer'' then O_deferred else O_rejected);
            itemStatus = (if d_action d = ''approve'' then Owner_approved
                          else if d_action d = ''defer'' then Owner_deferred else Owner_rejected);
            its1 = update_where (\<lambda>it. pi_id it = d_item_id d)
                     (\<lambda>it. it\<lparr> pi_owner_status := ownerStatus, pi_owner_amount := d_amount d,
                               pi_status := itemStatus \<rparr>) its;
            its2 = (if d_action d = ''defer''
                    then update_where (\<lambda>it. pi_id it = d_item_id d)
                           (\<lambda>it. it\<lparr>pi_status := Carry_forward\<rparr>) its1
                    else its1)
        in owner_loop ds
             (its2, (if d_action d = ''approve'' then True else hasApproved),
                    (if d_action d = ''defer'' then True else hasDeferred)))"

text \<open>
  \<open>hasApproved && !hasDeferred ? 'approved' : hasApproved && hasDeferred ?
  'partial_approved' : 'rejected'\<close>.
\<close>

definition new_status :: "bool \<Rightarrow> bool \<Rightarrow> proposal_status" where
  "new_status hasApproved hasDeferred =
     (if hasApproved \<and> \<not> hasDeferred then Approved
      else if hasApproved \<and> hasDeferred then Partial_approved else Rejected)"

definition owner_action :: "db \<Rightarrow> user \<Rightarrow> uuid \<Rightarrow> decision list option \<Rightarrow> db \<times> (failure + unit)" where
  "owner_action s u i items =
     (if \<not> authorize [Owner] u then (s, Inl access_denied)
      else case items of
        None \<Rightarrow> (s, Inl (Status 400 ''Items array is required''))
      | Some ds \<Rightarrow> transaction (\<lambda>s.
          case owner_loop ds (proposal_items s, False, False) of
            Inl e \<Rightarrow> Inl e
          | Inr (its, hasApproved, hasDeferred) \<Rightarrow>
              Inr (s\<lparr> proposal_items := its,
                       proposals := update_where (\<lambda>p. p_id p = i)
                                      (\<lambda>p. p\<lparr>p_status := new_status hasApproved hasDeferred\<rparr>)
                                      (proposals s) \<rparr>, ())) s)"

text \<open>
  DELETE /api/proposals/:id. Inside the transaction the items go first, then the proposal
  row under its condition; the callback returns \<open>deleteResult.rows[0]\<close> and never throws.
  Outside, no returned row is the answer 400.
\<close>

definition delete_proposal :: "db \<Rightarrow> user \<Rightarrow> uuid \<Rightarrow> db \<times> (failure + unit)" where
  "delete_proposal s u i =
     (if \<not> authorize [Purchase, Owner] u then (s, Inl access_denied)
      else
        case transaction (\<lambda>s.
               let s1 = s\<lparr>proposal_items :=
                            delete_where (\<lambda>it. pi_proposal_id it = i) (proposal_items s)\<rparr>;
                   hit = (\<lambda>p. p_id p = i \<and> p_status p = Draft
                               \<and> (p_created_by p = user_id u \<or> user_role u = Owner));
                   deleteResult = map p_id (filter hit (proposals s1));
                   s2 = s1\<lparr>proposals := delete_where hit (proposals s1)\<rparr>
               in Inr (s2, (case deleteResult of [] \<Rightarrow> None | r # _ \<Rightarrow> Some r))) s of
          (s', Inl e) \<Rightarrow> (s', Inl e)
        | (s', Inr None) \<Rightarrow> (s', Inl (Status 400 ''Cannot delete this proposal''))
        | (s', Inr (Some r)) \<Rightarrow> (s', Inr ()))"

section \<open>Payments (the payment routes of dashboard.routes.js)\<close>

text \<open>
  The items of POST /api/payments/create-from-proposal:
  \<open>FROM proposal_items pi JOIN inward_bills ib ON pi.bill_id = ib.id
  WHERE pi.proposal_id = $1 AND pi.owner_status = 'approved'\<close>, one row for every bill
  row the item refers to.
\<close>

definition approved_items :: "db \<Rightarrow> uuid \<Rightarrow> proposal_item list" where
  "approved_items s pid =
     concat (map (\<lambda>it. map (\<lambda>b. it) (filter (\<lambda>b. pi_bill_id it = ib_id b) (inward_bills s)))
               (filter (\<lambda>it. pi_proposal_id it = pid \<and> pi_owner_status it = O_approved)
                  (proposal_items s)))"

text \<open>
  Modelled from the spec: the column defaults of \<open>payments\<close> and \<open>payment_details\<close>, whose
  schema is not under src/. Section 3: a new payment is pending; a new detail is pending
  and its UTR is null until entered.
\<close>

definition new_payment :: "uuid \<Rightarrow> uuid \<Rightarrow> money \<Rightarrow> uuid \<Rightarrow> uuid \<Rightarrow> payment" where
  "new_payment i pid total_amount bank creator =
     \<lparr> pay_id = i, pay_proposal_id = Some pid, pay_total_amount = total_amount,
       pay_bank_account_id = bank, pay_status = Pay_pending, pay_created_by = creator \<rparr>"

definition new_payment_detail :: "uuid \<Rightarrow> uuid \<Rightarrow> proposal_item \<Rightarrow> money \<Rightarrow> payment_detail" where
  "new_payment_detail i payment_id it amount =
     \<lparr> pd_id = i, pd_payment_id = payment_id, pd_bill_id = pi_bill_id it,
       pd_proposal_item_id = Some (pi_id it), pd_amount = amount,
       pd_utr_number = None, pd_status = D_pending \<rparr>"

text \<open>
  Modelled from the spec: an item's \<open>owner_amount\<close> is null when the owner gave no amount,
  and a payment detail carries an amount (section 3), so the row of a null amount is
  refused by the \<open>payment_details\<close> table (its schema is not under src/) and the
  transaction is rolled back.
\<close>

definition null_amount :: failure where
  "null_amount = Thrown ''null value in column amount of payment_details''"

text \<open>
  POST /api/payments/create-from-proposal. The total is
  \<open>itemsResult.rows.reduce((sum, item) => sum + parseFloat(item.owner_amount), 0)\<close>;
  the payment takes the next id, the details the ids after it, in the order of the rows.
  \<open>None\<close> for \<open>proposal_id\<close> or \<open>bank_account_id\<close> is a body without the field.
\<close>

definition create_from_proposal ::
  "db \<Rightarrow> user \<Rightarrow> uuid option \<Rightarrow> uuid option \<Rightarrow> db \<times> (failure + payment)" where
  "create_from_proposal s u proposal_id bank_account_id =
     (if \<not> authorize [Accounts, Owner] u then (s, Inl access_denied)
      else case (proposal_id, bank_account_id) of
        (Some pid, Some bank) \<Rightarrow> transaction (\<lambda>s.
          if filter (\<lambda>p. p_id p = pid \<and> (p_status p = Approved \<or> p_status p = Partial_approved))
               (proposals s) = []
          then Inl (Thrown ''Proposal not found or not approved'')
          else
            let rows = approved_items s pid in
            if rows = [] then Inl (Thrown ''No approved items found'')
            else case those (map pi_owner_amount rows) of
              None \<Rightarrow> Inl null_amount
            | Some amounts \<Rightarrow>
                let totalAmount = foldl (\<lambda>acc a. acc + a) 0 amounts;
                    pay = new_payment (next_id s) pid totalAmount bank (user_id u);
                    ds = map (\<lambda>(k, it, a). new_payment_detail (Suc (next_id s) + k) (pay_id pay) it a)
                           (enumerate 0 (zip rows amounts))
                in Inr (s\<lparr> payments := payments s @ [pay],
                           payment_details := payment_details s @ ds,
                           proposals := update_where (\<lambda>p. p_id p = pid)
                                          (\<lambda>p. p\<lparr>p_status := Completed\<rparr>) (proposals s),
                           next_id := Suc (next_id s) + length rows \<rparr>, pay)) s
      | _ \<Rightarrow> (s, Inl (Status 400 ''proposal_id and bank_account_id are required'')))"

text \<open>An entry of the \<open>details\<close> array of the UTR update.\<close>

record utr_entry =
  e_detail_id :: uuid
  e_utr_number :: "string option"

text \<open>
  One round of the loop of POST /api/payments/:id/update-utr: the UPDATE of the detail
  (\<open>WHERE id = $2 AND payment_id = $3\<close>), the SELECT of its bill and amount
  (\<open>WHERE id = $1\<close>), and, when a row came back and the UTR is truthy, the UPDATE of the
  bill's \<open>paid_amount\<close> and of the status of the proposal item the detail names.
\<close>

definition settle_detail :: "uuid \<Rightarrow> utr_entry \<Rightarrow> db \<Rightarrow> db" where
  "settle_detail i e s =
     (let s1 = s\<lparr>payment_details :=
                  update_where (\<lambda>d. pd_id d = e_detail_id e \<and> pd_payment_id d = i)
                    (\<lambda>d. d\<lparr>pd_utr_number := e_utr_number e, pd_status := D_confirmed\<rparr>)
                    (payment_details s)\<rparr>
      in case find (\<lambda>d. pd_id d = e_detail_id e) (payment_details s1) of
           None \<Rightarrow> s1
         | Some detailResult \<Rightarrow>
             if truthy (e_utr_number e)
             then s1\<lparr> inward_bills :=
                        update_where (\<lambda>b. ib_id b = pd_bill_id detailResult)
                          (\<lambda>b. b\<lparr>ib_paid_amount := ib_paid_amount b + pd_amount detailResult\<rparr>)
                          (inward_bills s1),
                      proposal_items :=
                        update_where (\<lambda>it. Some (pi_id it) = pd_proposal_item_id detailResult)
                          (\<lambda>it. it\<lparr>pi_status := Item_paid\<rparr>) (proposal_items s1) \<rparr>
             else s1)"

text \<open>
  \<open>SELECT COUNT(*) FROM payment_details
  WHERE payment_id = $1 AND (utr_number IS NULL OR utr_number = '')\<close>.
\<close>

definition pending_count :: "uuid \<Rightarrow> db \<Rightarrow> nat" where
  "pending_count i s =
     count_where (\<lambda>d. pd_payment_id d = i \<and> (pd_utr_number d = None \<or> pd_utr_number d = Some []))
       (payment_details s)"

text \<open>The end of the transaction: the payment is confirmed when the count is 0, else processed.\<close>

definition set_payment_status :: "uuid \<Rightarrow> db \<Rightarrow> db" where
  "set_payment_status i s =
     (let newStatus = (if pending_count i s = 0 then Pay_confirmed else Pay_processed)
      in s\<lparr>payments := update_where (\<lambda>p. pay_id p = i) (\<lambda>p. p\<lparr>pay_status := newStatus\<rparr>) (payments s)\<rparr>)"

text \<open>POST /api/payments/:id/update-utr. \<open>None\<close> for \<open>details\<close> is a body without the array.\<close>

definition update_utr :: "db \<Rightarrow> user \<Rightarrow> uuid \<Rightarrow> utr_entry list option \<Rightarrow> db \<times> (failure + unit)" where
  "update_utr s u i details =
     (if \<not> authorize [Accounts, Owner] u then (s, Inl access_denied)
      else case details of
        None \<Rightarrow> (s, Inl (Status 400 ''details array is required''))
      | Some ds \<Rightarrow> transaction (\<lambda>s.
          Inr (set_payment_status i (foldl (\<lambda>s e. settle_detail i e s) s ds), ())) s)"

section \<open>The requests of the system\<close>

datatype request =
    Create_inward create_inward_req
  | Update_inward uuid update_inward_req
  | Cancel_inward uuid "string option"
  | Create_proposal create_proposal_req
  | Submit_proposal uuid
  | Accounts_action uuid "decision list option"
  | Owner_action uuid "decision list option"
  | Delete_proposal uuid
  | Create_from_proposal "uuid option" "uuid option"
  | Update_utr uuid "utr_entry list option"

text \<open>What a handler answers, without the row of a successful answer.\<close>

definition outcome :: "db \<times> (failure + 'a) \<Rightarrow> db \<times> (failure + unit)" where
  "outcome r = (fst r, map_sum id (\<lambda>x. ()) (snd r))"

fun handle :: "db \<Rightarrow> user \<Rightarrow> request \<Rightarrow> db \<times> (failure + unit)" where
  "handle s u (Create_inward r) = outcome (create_inward_bill s u r)"
| "handle s u (Update_inward i upd) = outcome (update_inward_bill s u i upd)"
| "handle s u (Cancel_inward i reason) = outcome (cancel_inward_bill s u i reason)"
| "handle s u (Create_proposal r) = outcome (create_proposal s u r)"
| "handle s u (Submit_proposal i) = outcome (submit_proposal s u i)"
| "handle s u (Accounts_action i items) = accounts_action s u i items"
| "handle s u (Owner_action i items) = owner_action s u i items"
| "handle s u (Delete_proposal i) = delete_proposal s u i"
| "handle s u (Create_from_proposal proposal_id bank) = outcome (create_from_proposal s u proposal_id bank)"
| "handle s u (Update_utr i details) = update_utr s u i details"

section \<open>Notions the properties are stated with\<close>

text \<open>
  In the words of the spec (sections 4.2 and 4.4): the days a receivable bill is overdue,
  \<open>max(0, today - due_date)\<close> in whole days, and the sum of the outstanding amounts
  \<open>amount - collected_amount\<close> of the bills of a table that satisfy a condition.
\<close>

definition days_overdue :: "date \<Rightarrow> outward_bill \<Rightarrow> int" where
  "days_overdue today b = max 0 (today - ob_due_date b)"

definition outstanding_of :: "(outward_bill \<Rightarrow> bool) \<Rightarrow> outward_bill list \<Rightarrow> money" where
  "outstanding_of P tbl = sum_list (map (\<lambda>b. ob_amount b - ob_collected_amount b) (filter P tbl))"

text \<open>The items of a proposal that the owner has approved.\<close>

definition owner_approved_items :: "db \<Rightarrow> uuid \<Rightarrow> proposal_item list" where
  "owner_approved_items s pid =
     filter (\<lambda>it. pi_proposal_id it = pid \<and> pi_owner_status it = O_approved) (proposal_items s)"

text \<open>Some proposal row with this id is completed.\<close>

definition is_completed :: "db \<Rightarrow> uuid \<Rightarrow> bool" where
  "is_completed s pid = list_ex (\<lambda>p. p_id p = pid \<and> p_status p = Completed) (proposals s)"

text \<open>The entries of an owner action, by what they decide.\<close>

definition valid_owner_action :: "decision \<Rightarrow> bool" where
  "valid_owner_action d = (d_action d \<in> set [''approve'', ''defer'', ''reject''])"

definition approves :: "decision list \<Rightarrow> bool" where
  "approves ds = list_ex (\<lambda>d. d_action d = ''approve'') ds"

definition defers :: "decision list \<Rightarrow> bool" where
  "defers ds = list_ex (\<lambda>d. d_action d = ''defer'') ds"


definition mark :: "uuid \<Rightarrow> utr_entry \<Rightarrow> payment_detail \<Rightarrow> payment_detail" where
  "mark i e d = (if pd_id d = e_detail_id e \<and> pd_payment_id d = i
                 then d\<lparr>pd_utr_number := e_utr_number e, pd_status := D_confirmed\<rparr> else d)"




section \<open>Example ledgers\<close>

text \<open>
  Receivable bills at day 100: five open bills of customer 7, one in each bucket (due on
  the day, and 15, 16, 22 and 31 days before), a cancelled and a paid bill of customer 7,
  and an open bill of customer 8 that is 30 days overdue.
\<close>

definition ex_receivable :: "uuid \<Rightarrow> uuid \<Rightarrow> money \<Rightarrow> money \<Rightarrow> date \<Rightarrow> string \<Rightarrow> outward_bill" where
  "ex_receivable i c amount collected due st =
     \<lparr>ob_id = i, ob_customer_id = c, ob_amount = amount, ob_collected_amount = collected,
      ob_due_date = due, ob_status = st\<rparr>"

definition ex_receivables :: "outward_bill list" where
  "ex_receivables =
     [ex_receivable 1 7 1000 400 100 ''active'',
      ex_receivable 2 7 500 0 85 ''active'',
      ex_receivable 3 7 300 0 84 ''active'',
      ex_receivable 4 7 200 0 78 ''active'',
      ex_receivable 5 7 100 0 69 ''active'',
      ex_receivable 6 7 900 0 60 ''cancelled'',
      ex_receivable 7 7 800 800 60 ''paid'',
      ex_receivable 8 8 50 0 70 ''active'']"

text \<open>
  A ledger with three payable bills of vendor 1, a draft proposal 1 for bill 1 and a
  proposal 2 under review for bills 2 and 3, both created by the purchase user 7; then the
  same ledger after proposal 1 was approved at 9500 (\<open>ex_approved\<close>), after its payment
  batch was generated (\<open>ex_batched\<close>), and after the UTR of its one detail was entered
  (\<open>ex_settled\<close>).
\<close>

definition ex_owner :: user where "ex_owner = \<lparr>user_id = 9, user_role = Owner\<rparr>"
definition ex_purchase :: user where "ex_purchase = \<lparr>user_id = 7, user_role = Purchase\<rparr>"
definition ex_accounts :: user where "ex_accounts = \<lparr>user_id = 8, user_role = Accounts\<rparr>"

definition ex_bill :: "uuid \<Rightarrow> money \<Rightarrow> date \<Rightarrow> int \<Rightarrow> inward_bill" where
  "ex_bill i amount invoice_date credit_days =
     \<lparr> ib_id = i, ib_vendor_id = 1, ib_bill_number = ''B'', ib_invoice_date = invoice_date,
       ib_receiving_date = invoice_date, ib_amount = amount, ib_paid_amount = 0,
       ib_credit_days = credit_days, ib_due_date = invoice_date + credit_days,
       ib_checked_by = ''G'', ib_remarks = [], ib_bill_scan_url = [],
       ib_status = B_active, ib_payment_status = PS_open, ib_version = 1 \<rparr>"

definition ex_item :: "uuid \<Rightarrow> uuid \<Rightarrow> uuid \<Rightarrow> money \<Rightarrow> proposal_item" where
  "ex_item i pid bill amount =
     \<lparr> pi_id = i, pi_proposal_id = pid, pi_bill_id = bill, pi_proposed_amount = amount,
       pi_accounts_status = A_pending, pi_accounts_amount = None,
       pi_owner_status = O_pending, pi_owner_amount = None, pi_status = Proposed \<rparr>"

definition ex_ledger :: db where
  "ex_ledger =
     \<lparr> vendors = [\<lparr>v_id = 1, v_name = ''Acme''\<rparr>],
       inward_bills = [ex_bill 1 10000 0 30, ex_bill 2 5000 10 15, ex_bill 3 700 12 0],
       outward_bills = [],
       proposals = [\<lparr>p_id = 1, p_payment_date = 40, p_total_amount = 10000, p_status = Draft,
                      p_created_by = 7\<rparr>,
                    \<lparr>p_id = 2, p_payment_date = 40, p_total_amount = 5700,
                      p_status = Under_review, p_created_by = 7\<rparr>],
       proposal_items = [ex_item 10 1 1 10000, ex_item 20 2 2 5000, ex_item 21 2 3 700],
       payments = [], payment_details = [], next_id = 100 \<rparr>"

definition ex_decision :: "uuid \<Rightarrow> string \<Rightarrow> money option \<Rightarrow> decision" where
  "ex_decision i a amount = \<lparr>d_item_id = i, d_action = a, d_amount = amount\<rparr>"

definition ex_approved :: db where
  "ex_approved =
     ex_ledger\<lparr>
       proposals := [\<lparr>p_id = 1, p_payment_date = 40, p_total_amount = 10000, p_status = Approved,
                       p_created_by = 7\<rparr>,
                     \<lparr>p_id = 2, p_payment_date = 40, p_total_amount = 5700,
                       p_status = Under_review, p_created_by = 7\<rparr>],
       proposal_items := [(ex_item 10 1 1 10000)\<lparr>
                             pi_accounts_status := A_approved, pi_accounts_amount := Some 9500,
                             pi_owner_status := O_approved, pi_owner_amount := Some 9500,
                             pi_status := Owner_approved\<rparr>,
                          ex_item 20 2 2 5000, ex_item 21 2 3 700] \<rparr>"

definition ex_payment :: payment where
  "ex_payment = \<lparr> pay_id = 100, pay_proposal_id = Some 1, pay_total_amount = 9500,
                   pay_bank_account_id = 5, pay_status = Pay_pending, pay_created_by = 8 \<rparr>"

definition ex_detail :: payment_detail where
  "ex_detail = \<lparr> pd_id = 101, pd_payment_id = 100, pd_bill_id = 1, pd_proposal_item_id = Some 10,
                  pd_amount = 9500, pd_utr_number = None, pd_status = D_pending \<rparr>"

definition ex_batched :: db where
  "ex_batched =
     ex_approved\<lparr>
       payments := [ex_payment],
       payment_details := [ex_detail],
       proposals := [\<lparr>p_id = 1, p_payment_date = 40, p_total_amount = 10000, p_status = Completed,
                       p_created_by = 7\<rparr>,
                     \<lparr>p_id = 2, p_payment_date = 40, p_total_amount = 5700,
                       p_status = Under_review, p_created_by = 7\<rparr>],
       next_id := 102 \<rparr>"

definition ex_utr :: utr_entry where
  "ex_utr = \<lparr>e_detail_id = 101, e_utr_number = Some ''UTR1''\<rparr>"

definition ex_settled :: db where
  "ex_settled =
     ex_batched\<lparr>
       payments := [ex_payment\<lparr>pay_status := Pay_confirmed\<rparr>],
       payment_details := [ex_detail\<lparr>pd_utr_number := Some ''UTR1'', pd_status := D_confirmed\<rparr>],
       inward_bills := [(ex_bill 1 10000 0 30)\<lparr>ib_paid_amount := 9500\<rparr>,
                        ex_bill 2 5000 10 15, ex_bill 3 700 12 0],
       proposal_items := [(ex_item 10 1 1 10000)\<lparr>
                             pi_accounts_status := A_approved, pi_accounts_amount := Some 9500,
                             pi_owner_status := O_approved, pi_owner_amount := Some 9500,
                             pi_status := Item_paid\<rparr>,
                          ex_item 20 2 2 5000, ex_item 21 2 3 700] \<rparr>"



definition only_credit_days :: "int \<Rightarrow> update_inward_req" where
  "only_credit_days n =
     \<lparr> up_bill_number = None, up_invoice_date = None, up_receiving_date = None,
       up_amount = None, up_credit_days = Some n, up_checked_by = None, up_remarks = None,
       up_bill_scan_url = None \<rparr>"

section \<open>Properties of the receivables ageing\<close>

lemma bucket_of_single:
  "bucket_of today b =
     (if ob_due_date b \<ge> today then [Current]
      else if ob_due_date b \<ge> today - 15 then [Days_1_15]
      else if ob_due_date b \<ge> today - 21 then [Days_16_21]
      else if ob_due_date b \<ge> today - 30 then [Days_22_30]
      else [Days_30_plus])"
  by (simp add: bucket_of_def)

lemma sum_case_split:
  "sum_case (in_bucket Current today) rows + sum_case (in_bucket Days_1_15 today) rows
     + sum_case (in_bucket Days_16_21 today) rows + sum_case (in_bucket Days_22_30 today) rows
     + sum_case (in_bucket Days_30_plus today) rows
   = sum_case (\<lambda>b. True) rows"
  by (induction rows) (auto simp: sum_case_def)

text \<open>The sums of the queries, and their conditions, in the words of the spec.\<close>

lemma sum_case_filter:
  "sum_case c (filter P tbl) = outstanding_of (\<lambda>b. P b \<and> c b) tbl"
  by (induction tbl) (auto simp: sum_case_def outstanding_of_def)

lemma in_bucket_overdue:
  "in_bucket Current today b = (days_overdue today b = 0)"
  "in_bucket Days_1_15 today b = (1 \<le> days_overdue today b \<and> days_overdue today b \<le> 15)"
  "in_bucket Days_16_21 today b = (16 \<le> days_overdue today b \<and> days_overdue today b \<le> 21)"
  "in_bucket Days_22_30 today b = (22 \<le> days_overdue today b \<and> days_overdue today b \<le> 30)"
  "in_bucket Days_30_plus today b = (31 \<le> days_overdue today b)"
  by (auto simp: days_overdue_def)

lemma customer_ageing_fields:
  "customer_receivables_ageing tbl cid today =
     \<lparr> current_amount =
         outstanding_of (\<lambda>b. (ob_customer_id b = cid \<and> ob_open b) \<and> days_overdue today b = 0) tbl,
       days_1_15 =
         outstanding_of (\<lambda>b. (ob_customer_id b = cid \<and> ob_open b)
                              \<and> 1 \<le> days_overdue today b \<and> days_overdue today b \<le> 15) tbl,
       days_16_21 =
         outstanding_of (\<lambda>b. (ob_customer_id b = cid \<and> ob_open b)
                              \<and> 16 \<le> days_overdue today b \<and> days_overdue today b \<le> 21) tbl,
       days_22_30 =
         outstanding_of (\<lambda>b. (ob_customer_id b = cid \<and> ob_open b)
                              \<and> 22 \<le> days_overdue today b \<and> days_overdue today b \<le> 30) tbl,
       days_30_plus =
         outstanding_of (\<lambda>b. (ob_customer_id b = cid \<and> ob_open b)
                              \<and> 31 \<le> days_overdue today b) tbl \<rparr>"
  by (simp add: customer_receivables_ageing_def Let_def sum_case_filter in_bucket_overdue
      del: in_bucket.simps)

lemma global_ageing_fields:
  "receivables_ageing tbl today =
     \<lparr> s_current_amount = outstanding_of (\<lambda>b. ob_open b \<and> days_overdue today b = 0) tbl,
       s_current_count = length (filter (\<lambda>b. ob_open b \<and> days_overdue today b = 0) tbl),
       s_days_15_amount =
         outstanding_of (\<lambda>b. ob_open b \<and> 1 \<le> days_overdue today b \<and> days_overdue today b \<le> 15) tbl,
       s_days_15_count =
         length (filter (\<lambda>b. ob_open b \<and> 1 \<le> days_overdue today b \<and> days_overdue today b \<le> 15) tbl),
       s_days_21_amount =
         outstanding_of (\<lambda>b. ob_open b \<and> 16 \<le> days_overdue today b \<and> days_overdue today b \<le> 21) tbl,
       s_days_21_count =
         length (filter (\<lambda>b. ob_open b \<and> 16 \<le> days_overdue today b \<and> days_overdue today b \<le> 21) tbl),
       s_days_30_amount =
         outstanding_of (\<lambda>b. ob_open b \<and> 22 \<le> days_overdue today b \<and> days_overdue today b \<le> 30) tbl,
       s_days_30_count =
         length (filter (\<lambda>b. ob_open b \<and> 22 \<le> days_overdue today b \<and> days_overdue today b \<le> 30) tbl),
       s_days_30_plus_amount = outstanding_of (\<lambda>b. ob_open b \<and> 31 \<le> days_overdue today b) tbl,
       s_days_30_plus_count = length (filter (\<lambda>b. ob_open b \<and> 31 \<le> days_overdue today b) tbl) \<rparr>"
  by (simp add: receivables_ageing_def Let_def sum_case_filter count_where_def in_bucket_overdue
      conj_ac del: in_bucket.simps)

text \<open>
  C8. Both ageing queries answer, field by field, the outstanding amount of the bills that
  are neither cancelled nor paid (of the customer, for the customer's query) and whose
  days overdue are 0 for the current bucket, 1 to 15, 16 to 21, 22 to 30, and 31 or more
  for the bucket 30+; the counts of the global query are the numbers of those bills.
  Every bill falls in exactly one of the five buckets, and its outstanding amount is
  counted there and nowhere else. The upper boundary of each bucket is inclusive: due
  today is current; due 1 or 15 days ago is 1-15; 16 or 21 days ago is 16-21; 22 or 30
  days ago is 22-30; 31 days ago is 30+. The five amounts add up to the total outstanding
  of the bills that are neither cancelled nor paid, and the five counts to their number.
\<close>

theorem receivables_ageing_buckets:
  "customer_receivables_ageing tbl cid today =
     \<lparr> current_amount =
         outstanding_of (\<lambda>b. (ob_customer_id b = cid \<and> ob_open b) \<and> days_overdue today b = 0) tbl,
       days_1_15 =
         outstanding_of (\<lambda>b. (ob_customer_id b = cid \<and> ob_open b)
                              \<and> 1 \<le> days_overdue today b \<and> days_overdue today b \<le> 15) tbl,
       days_16_21 =
         outstanding_of (\<lambda>b. (ob_customer_id b = cid \<and> ob_open b)
                              \<and> 16 \<le> days_overdue today b \<and> days_overdue today b \<le> 21) tbl,
       days_22_30 =
         outstanding_of (\<lambda>b. (ob_customer_id b = cid \<and> ob_open b)
                              \<and> 22 \<le> days_overdue today b \<and> days_overdue today b \<le> 30) tbl,
       days_30_plus =
         outstanding_of (\<lambda>b. (ob_customer_id b = cid \<and> ob_open b)
                              \<and> 31 \<le> days_overdue today b) tbl \<rparr>
   \<and> receivables_ageing tbl today =
     \<lparr> s_current_amount = outstanding_of (\<lambda>b. ob_open b \<and> days_overdue today b = 0) tbl,
       s_current_count = length (filter (\<lambda>b. ob_open b \<and> days_overdue today b = 0) tbl),
       s_days_15_amount =
         outstanding_of (\<lambda>b. ob_open b \<and> 1 \<le> days_overdue today b \<and> days_overdue today b \<le> 15) tbl,
       s_days_15_count =
         length (filter (\<lambda>b. ob_open b \<and> 1 \<le> days_overdue today b \<and> days_overdue today b \<le> 15) tbl),
       s_days_21_amount =
         outstanding_of (\<lambda>b. ob_open b \<and> 16 \<le> days_overdue today b \<and> days_overdue today b \<le> 21) tbl,
       s_days_21_count =
         length (filter (\<lambda>b. ob_open b \<and> 16 \<le> days_overdue today b \<and> days_overdue today b \<le> 21) tbl),
       s_days_30_amount =
         outstanding_of (\<lambda>b. ob_open b \<and> 22 \<le> days_overdue today b \<and> days_overdue today b \<le> 30) tbl,
       s_days_30_count =
         length (filter (\<lambda>b. ob_open b \<and> 22 \<le> days_overdue today b \<and> days_overdue today b \<le> 30) tbl),
       s_days_30_plus_amount = outstanding_of (\<lambda>b. ob_open b \<and> 31 \<le> days_overdue today b) tbl,
       s_days_30_plus_count = length (filter (\<lambda>b. ob_open b \<and> 31 \<le> days_overdue today b) tbl) \<rparr>
   \<and> length (bucket_of today b) = 1
   \<and> (\<forall>k. sum_case (in_bucket k today) [b]
          = (if bucket_of today b = [k] then ob_amount b - ob_collected_amount b else 0))
   \<and> bucket_of today (b\<lparr>ob_due_date := today\<rparr>) = [Current]
   \<and> bucket_of today (b\<lparr>ob_due_date := today - 1\<rparr>) = [Days_1_15]
   \<and> bucket_of today (b\<lparr>ob_due_date := today - 15\<rparr>) = [Days_1_15]
   \<and> bucket_of today (b\<lparr>ob_due_date := today - 16\<rparr>) = [Days_16_21]
   \<and> bucket_of today (b\<lparr>ob_due_date := today - 21\<rparr>) = [Days_16_21]
   \<and> bucket_of today (b\<lparr>ob_due_date := today - 22\<rparr>) = [Days_22_30]
   \<and> bucket_of today (b\<lparr>ob_due_date := today - 30\<rparr>) = [Days_22_30]
   \<and> bucket_of today (b\<lparr>ob_due_date := today - 31\<rparr>) = [Days_30_plus]
   \<and> (let a = customer_receivables_ageing tbl cid today
      in current_amount a + days_1_15 a + days_16_21 a + days_22_30 a + days_30_plus a
         = customer_outstanding tbl cid)
   \<and> (let g = receivables_ageing tbl today
      in s_current_amount g + s_days_15_amount g + s_days_21_amount g + s_days_30_amount g
           + s_days_30_plus_amount g = total_outstanding tbl
         \<and> s_current_count g + s_days_15_count g + s_days_21_count g + s_days_30_count g
           + s_days_30_plus_count g = count_where ob_open tbl)"
proof -
  have one: "length (bucket_of today b) = 1"
    by (simp add: bucket_of_single)
  have amount: "\<forall>k. sum_case (in_bucket k today) [b]
          = (if bucket_of today b = [k] then ob_amount b - ob_collected_amount b else 0)"
  proof
    fix k show "sum_case (in_bucket k today) [b]
          = (if bucket_of today b = [k] then ob_amount b - ob_collected_amount b else 0)"
      by (cases k) (auto simp: sum_case_def bucket_of_single)
  qed
  have bounds: "bucket_of today (b\<lparr>ob_due_date := today\<rparr>) = [Current]"
    "bucket_of today (b\<lparr>ob_due_date := today - 1\<rparr>) = [Days_1_15]"
    "bucket_of today (b\<lparr>ob_due_date := today - 15\<rparr>) = [Days_1_15]"
    "bucket_of today (b\<lparr>ob_due_date := today - 16\<rparr>) = [Days_16_21]"
    "bucket_of today (b\<lparr>ob_due_date := today - 21\<rparr>) = [Days_16_21]"
    "bucket_of today (b\<lparr>ob_due_date := today - 22\<rparr>) = [Days_22_30]"
    "bucket_of today (b\<lparr>ob_due_date := today - 30\<rparr>) = [Days_22_30]"
    "bucket_of today (b\<lparr>ob_due_date := today - 31\<rparr>) = [Days_30_plus]"
    by (simp_all add: bucket_of_single)
  have cust: "(let a = customer_receivables_ageing tbl cid today
      in current_amount a + days_1_15 a + days_16_21 a + days_22_30 a + days_30_plus a
         = customer_outstanding tbl cid)"
    by (simp add: customer_receivables_ageing_def customer_outstanding_def Let_def sum_case_split)
  have glob: "(let g = receivables_ageing tbl today
      in s_current_amount g + s_days_15_amount g + s_days_21_amount g + s_days_30_amount g
           + s_days_30_plus_amount g = total_outstanding tbl)"
    by (simp add: receivables_ageing_def total_outstanding_def Let_def sum_case_split)
  have cnt: "(let g = receivables_ageing tbl today
      in s_current_count g + s_days_15_count g + s_days_21_count g + s_days_30_count g
           + s_days_30_plus_count g = count_where ob_open tbl)"
    unfolding receivables_ageing_def Let_def count_where_def
    by (induction tbl) auto
  have rest: "length (bucket_of today b) = 1
   \<and> (\<forall>k. sum_case (in_bucket k today) [b]
          = (if bucket_of today b = [k] then ob_amount b - ob_collected_amount b else 0))
   \<and> bucket_of today (b\<lparr>ob_due_date := today\<rparr>) = [Current]
   \<and> bucket_of today (b\<lparr>ob_due_date := today - 1\<rparr>) = [Days_1_15]
   \<and> bucket_of today (b\<lparr>ob_due_date := today - 15\<rparr>) = [Days_1_15]
   \<and> bucket_of today (b\<lparr>ob_due_date := today - 16\<rparr>) = [Days_16_21]
   \<and> bucket_of today (b\<lparr>ob_due_date := today - 21\<rparr>) = [Days_16_21]
   \<and> bucket_of today (b\<lparr>ob_due_date := today - 22\<rparr>) = [Days_22_30]
   \<and> bucket_of today (b\<lparr>ob_due_date := today - 30\<rparr>) = [Days_22_30]
   \<and> bucket_of today (b\<lparr>ob_due_date := today - 31\<rparr>) = [Days_30_plus]
   \<and> (let a = customer_receivables_ageing tbl cid today
      in current_amount a + days_1_15 a + days_16_21 a + days_22_30 a + days_30_plus a
         = customer_outstanding tbl cid)
   \<and> (let g = receivables_ageing tbl today
      in s_current_amount g + s_days_15_amount g + s_days_21_amount g + s_days_30_amount g
           + s_days_30_plus_amount g = total_outstanding tbl
         \<and> s_current_count g + s_days_15_count g + s_days_21_count g + s_days_30_count g
           + s_days_30_plus_count g = count_where ob_open tbl)"
    using one amount bounds cust glob cnt by (simp add: Let_def)
  show ?thesis
    by (intro conjI customer_ageing_fields global_ageing_fields) (use rest in blast)+
qed

text \<open>
  On the example at day 100, the answers of the two queries, bucket by bucket: customer 7
  has 600 current, 500 in 1-15, 300 in 16-21, 200 in 22-30 and 100 in 30+; over all
  customers the 50 of customer 8 come on top in 22-30. The cancelled and the paid bill are
  nowhere.
\<close>

theorem receivables_ageing_buckets_witness:
  "customer_receivables_ageing ex_receivables 7 100
     = \<lparr>current_amount = 600, days_1_15 = 500, days_16_21 = 300, days_22_30 = 200,
        days_30_plus = 100\<rparr>
   \<and> receivables_ageing ex_receivables 100
     = \<lparr>s_current_amount = 600, s_current_count = 1, s_days_15_amount = 500, s_days_15_count = 1,
        s_days_21_amount = 300, s_days_21_count = 1, s_days_30_amount = 250, s_days_30_count = 2,
        s_days_30_plus_amount = 100, s_days_30_plus_count = 1\<rparr>
   \<and> customer_outstanding ex_receivables 7 = 1700
   \<and> total_outstanding ex_receivables = 1750"
  using receivables_ageing_buckets [of ex_receivables 7 100 "ex_receivable 1 7 1000 400 100 ''active''"]
  by (simp add: ex_receivables_def ex_receivable_def outstanding_of_def days_overdue_def
      ob_open_def customer_outstanding_def total_outstanding_def sum_case_def)

section \<open>Due dates of payable bills\<close>

lemma authorize_set: "authorize rs u = (user_role u \<in> set rs)"
  by (simp add: authorize_def)

text \<open>
  On day numbers (a server that runs in UTC), a created bill is due its credit days after
  its invoice date.
\<close>

lemma create_inward_due_date:
  assumes "create_inward_bill s u r = (s', Inr b)"
  shows "ib_due_date b = ci_invoice_date r + ci_credit_days r"
    and "inward_bills s' = inward_bills s @ [b]"
  using assms
  by (auto simp: create_inward_bill_def new_inward_bill_def calculate_due_date_def Let_def
      sanitize_create_inward_def split: if_splits)

text \<open>
  On day numbers, an update that gives an invoice date, or credit days other than 0,
  answers a bill that is due its credit days after its invoice date.
\<close>

lemma update_inward_due_date:
  assumes "update_inward_bill s u i upd = (s', Inr b)" and "recalculates upd"
  shows "ib_due_date b = ib_invoice_date b + ib_credit_days b"
  using assms
  by (auto simp: update_inward_bill_def set_allowed_fields_def recalculated_due_date_def
      calculate_due_date_def Let_def split: if_splits option.splits)

text \<open>
  C7. An update of \<open>credit_days\<close> is to recompute the due date for every value in
  0..365, 0 included; at 0 the handler does not. On the example ledger, bill 1 has invoice date 0, 30 credit
  days and due date 30. The owner's update \<open>{credit_days: 0}\<close> stores 0 credit days and
  leaves the due date at 30, where invoice date plus credit days is 0; the update
  \<open>{credit_days: 1}\<close> does move the due date, to 1.
\<close>

theorem credit_days_zero_keeps_due_date:
  "map (\<lambda>b. (ib_invoice_date b, ib_credit_days b, ib_due_date b))
     (filter (\<lambda>b. ib_id b = 1) (inward_bills ex_ledger)) = [(0, 30, 30)]
   \<and> map (\<lambda>b. (ib_invoice_date b, ib_credit_days b, ib_due_date b))
     (filter (\<lambda>b. ib_id b = 1)
        (inward_bills (fst (update_inward_bill ex_ledger ex_owner 1 (only_credit_days 0)))))
     = [(0, 0, 30)]
   \<and> map (\<lambda>b. (ib_invoice_date b, ib_credit_days b, ib_due_date b))
     (filter (\<lambda>b. ib_id b = 1)
        (inward_bills (fst (update_inward_bill ex_ledger ex_owner 1 (only_credit_days 1)))))
     = [(0, 1, 1)]"
  by (simp add: ex_ledger_def ex_bill_def ex_item_def ex_owner_def only_credit_days_def update_inward_bill_def authorize_def
      no_set_clause_def recalculates_def recalculated_due_date_def calculate_due_date_def
      date_in_range_def set_allowed_fields_def update_where_def)

section \<open>Submitting and deleting a proposal\<close>

lemma submit_none:
  assumes "authorize [Purchase, Owner] u"
    and "find (\<lambda>p. p_id p = i \<and> p_status p = Draft \<and> p_created_by p = user_id u) (proposals s) = None"
  shows "submit_proposal s u i = (s, Inl (Status 400 ''Cannot submit this proposal''))"
  using assms by (simp add: submit_proposal_def)

lemma submit_some:
  assumes "authorize [Purchase, Owner] u"
    and "find (\<lambda>p. p_id p = i \<and> p_status p = Draft \<and> p_created_by p = user_id u) (proposals s) = Some p"
  shows "submit_proposal s u i
    = (s\<lparr>proposals := map (\<lambda>p. if p_id p = i \<and> p_status p = Draft \<and> p_created_by p = user_id u
                                then p\<lparr>p_status := Submitted\<rparr> else p) (proposals s)\<rparr>,
       Inr (p\<lparr>p_status := Submitted\<rparr>))"
  using assms by (simp add: submit_proposal_def update_where_def Let_def)

text \<open>
  C10 as stated fails for an owner who is not the creator: on the example ledger the owner (user 9) submits
  the draft proposal 1, which the purchase user 7 created, and is refused; nothing
  changes.
\<close>

theorem submit_by_other_owner_counterexample:
  "user_role ex_owner = Owner
   \<and> map (\<lambda>p. (p_status p, p_created_by p)) (filter (\<lambda>p. p_id p = 1) (proposals ex_ledger))
       = [(Draft, 7)]
   \<and> submit_proposal ex_ledger ex_owner 1
       = (ex_ledger, Inl (Status 400 ''Cannot submit this proposal''))"
  by (simp add: ex_ledger_def ex_bill_def ex_item_def ex_owner_def submit_proposal_def authorize_def)

text \<open>
  C10, amended. Submission succeeds exactly when the caller has the purchase or the owner
  role and the proposal is a draft that the caller created. It then turns the proposal to
  submitted and answers it. In every other case (the proposal is in another status, or
  the caller is not its creator, whatever the role) it fails and nothing changes.
\<close>

theorem submit_creator_only:
  "submit_proposal s u i =
     (if (user_role u = Purchase \<or> user_role u = Owner)
         \<and> (\<exists>p\<in>set (proposals s). p_id p = i \<and> p_status p = Draft \<and> p_created_by p = user_id u)
      then (s\<lparr>proposals := map (\<lambda>p. if p_id p = i \<and> p_status p = Draft \<and> p_created_by p = user_id u
                                    then p\<lparr>p_status := Submitted\<rparr> else p) (proposals s)\<rparr>,
            Inr (the (find (\<lambda>p. p_id p = i \<and> p_status p = Draft \<and> p_created_by p = user_id u)
                        (proposals s))\<lparr>p_status := Submitted\<rparr>))
      else (s, if user_role u = Purchase \<or> user_role u = Owner
               then Inl (Status 400 ''Cannot submit this proposal'') else Inl access_denied))"
    (is "_ = (if ?role \<and> ?ex then ?ok else ?ko)")
proof (cases ?role)
  case False
  then have "\<not> authorize [Purchase, Owner] u"
    by (simp add: authorize_set)
  with False show ?thesis by (simp add: submit_proposal_def)
next
  case role: True
  then have auth: "authorize [Purchase, Owner] u"
    by (simp add: authorize_set)
  let ?hit = "\<lambda>p. p_id p = i \<and> p_status p = Draft \<and> p_created_by p = user_id u"
  show ?thesis
  proof (cases "find ?hit (proposals s)")
    case None
    then have "\<not> ?ex"
      by (simp add: find_None_iff)
    with role submit_none [OF auth None] show ?thesis
      by simp
  next
    case (Some p)
    then have "?ex"
      using find_None_iff [of ?hit "proposals s"] by auto
    with role Some submit_some [OF auth Some] show ?thesis
      by simp
  qed
qed

text \<open>
  On the example ledger the purchase user 7 submits the draft proposal 1 and is refused
  for proposal 2, which is under review.
\<close>

theorem submit_creator_only_witness:
  "submit_proposal ex_ledger ex_purchase 1
     = (ex_ledger\<lparr>proposals := [\<lparr>p_id = 1, p_payment_date = 40, p_total_amount = 10000,
                                  p_status = Submitted, p_created_by = 7\<rparr>,
                                \<lparr>p_id = 2, p_payment_date = 40, p_total_amount = 5700,
                                  p_status = Under_review, p_created_by = 7\<rparr>]\<rparr>,
        Inr \<lparr>p_id = 1, p_payment_date = 40, p_total_amount = 10000,
             p_status = Submitted, p_created_by = 7\<rparr>)
   \<and> submit_proposal ex_ledger ex_purchase 2
     = (ex_ledger, Inl (Status 400 ''Cannot submit this proposal''))"
  using submit_creator_only [of ex_ledger ex_purchase 1] submit_creator_only [of ex_ledger ex_purchase 2]
  by (simp add: ex_ledger_def ex_bill_def ex_item_def ex_purchase_def)

text \<open>
  C9. A refused deletion is to leave the proposal and its items unchanged; the handler
  drops the items.
  On the example ledger the purchase user 7 deletes proposal 2, which is under review:
  the answer is 400, the proposal is still there, and its items 20 and 21 are gone (only
  item 10 of proposal 1 is left).
\<close>

theorem delete_refused_drops_items:
  "delete_proposal ex_ledger ex_purchase 2
     = (ex_ledger\<lparr>proposal_items := [ex_item 10 1 1 10000]\<rparr>,
        Inl (Status 400 ''Cannot delete this proposal''))
   \<and> proposals (fst (delete_proposal ex_ledger ex_purchase 2)) = proposals ex_ledger
   \<and> map pi_id (proposal_items ex_ledger) = [10, 20, 21]"
  by (simp add: ex_ledger_def ex_bill_def ex_item_def ex_purchase_def delete_proposal_def authorize_def transaction_def delete_where_def)

section \<open>The owner's decision\<close>

text \<open>
  The loop goes through every entry when all actions are valid, and its flags then say
  whether some entry approves and whether some entry defers.
\<close>

lemma owner_loop_flags:
  "list_all valid_owner_action ds \<Longrightarrow>
   \<exists>its'. owner_loop ds (its, ha, hf) = Inr (its', ha \<or> approves ds, hf \<or> defers ds)"
proof (induction ds arbitrary: its ha hf)
  case Nil
  then show ?case by (simp add: approves_def defers_def)
next
  case (Cons d ds)
  from Cons.prems have rest: "list_all valid_owner_action ds"
    by simp
  from Cons.prems have "valid_owner_action d"
    by simp
  then have v: "d_action d = ''approve'' \<or> d_action d = ''defer'' \<or> d_action d = ''reject''"
    by (auto simp: valid_owner_action_def)
  define its1 where "its1 = update_where (\<lambda>it. pi_id it = d_item_id d)
      (\<lambda>it. it\<lparr> pi_owner_status := (if d_action d = ''approve'' then O_approved
                                           else if d_action d = ''defer'' then O_deferred else O_rejected),
                pi_owner_amount := d_amount d,
                pi_status := (if d_action d = ''approve'' then Owner_approved
                              else if d_action d = ''defer'' then Owner_deferred else Owner_rejected) \<rparr>) its"
  define its2 where "its2 = (if d_action d = ''defer''
      then update_where (\<lambda>it. pi_id it = d_item_id d) (\<lambda>it. it\<lparr>pi_status := Carry_forward\<rparr>) its1
      else its1)"
  have step: "owner_loop (d # ds) (its, ha, hf)
      = owner_loop ds (its2, (if d_action d = ''approve'' then True else ha),
                             (if d_action d = ''defer'' then True else hf))"
    using v by (auto simp: its1_def its2_def Let_def)
  from Cons.IH [OF rest, of its2 "if d_action d = ''approve'' then True else ha"
      "if d_action d = ''defer'' then True else hf"]
  obtain its' where "owner_loop ds (its2, (if d_action d = ''approve'' then True else ha),
                             (if d_action d = ''defer'' then True else hf))
     = Inr (its', (if d_action d = ''approve'' then True else ha) \<or> approves ds,
                  (if d_action d = ''defer'' then True else hf) \<or> defers ds)"
    by blast
  with step have "owner_loop (d # ds) (its, ha, hf)
     = Inr (its', ha \<or> approves (d # ds), hf \<or> defers (d # ds))"
    by (auto simp: approves_def defers_def)
  then show ?case by blast
qed

text \<open>An entry with another action makes the loop throw.\<close>

lemma owner_loop_invalid:
  "\<not> list_all valid_owner_action ds \<Longrightarrow> \<exists>e. owner_loop ds st = Inl e"
proof (induction ds arbitrary: st)
  case Nil
  then show ?case by simp
next
  case (Cons d ds)
  obtain its ha hf where st: "st = (its, ha, hf)" by (cases st) auto
  show ?case
  proof (cases "valid_owner_action d")
    case True
    with Cons.prems have "\<not> list_all valid_owner_action ds" by simp
    from Cons.IH [OF this] True show ?thesis
      unfolding st by (simp add: valid_owner_action_def Let_def)
  next
    case False
    then show ?thesis unfolding st by (simp add: valid_owner_action_def)
  qed
qed

text \<open>
  C4 as stated fails: the status is decided by the entries of one request, not by all
  items of the proposal. On the example ledger the owner first defers item 20
  of proposal 2 and then, in a second request, approves item 21. Of the items of the
  proposal one is now deferred and one approved, and the proposal is approved, not
  partially approved.
\<close>

theorem owner_action_counterexample:
  "map (\<lambda>it. (pi_id it, pi_owner_status it))
     (filter (\<lambda>it. pi_proposal_id it = 2)
        (proposal_items (fst (owner_action
           (fst (owner_action ex_ledger ex_owner 2 (Some [ex_decision 20 ''defer'' None])))
           ex_owner 2 (Some [ex_decision 21 ''approve'' (Some 700)])))))
     = [(20, O_deferred), (21, O_approved)]
   \<and> map p_status
     (filter (\<lambda>p. p_id p = 2)
        (proposals (fst (owner_action
           (fst (owner_action ex_ledger ex_owner 2 (Some [ex_decision 20 ''defer'' None])))
           ex_owner 2 (Some [ex_decision 21 ''approve'' (Some 700)])))))
     = [Approved]"
  by (simp add: ex_ledger_def ex_bill_def ex_item_def ex_owner_def ex_decision_def owner_action_def authorize_def transaction_def
      new_status_def update_where_def)

text \<open>
  C4, amended. The decision quantifies over the entries of the owner's request. When
  every entry has a valid action the request succeeds and the proposal becomes approved
  if some entry approves and none defers, partially approved if some entry approves and
  some entry defers, and rejected if no entry approves (also when all entries defer, and
  for the empty request). An entry with another action fails the request and nothing
  changes.
\<close>

theorem owner_action_status:
  assumes "user_role u = Owner"
  shows "((\<forall>d\<in>set ds. d_action d \<in> {''approve'', ''defer'', ''reject''}) \<longrightarrow>
            snd (owner_action s u i (Some ds)) = Inr ()
            \<and> proposals (fst (owner_action s u i (Some ds)))
              = map (\<lambda>p. if p_id p = i
                          then p\<lparr>p_status :=
                                 (if (\<exists>d\<in>set ds. d_action d = ''approve'')
                                     \<and> \<not> (\<exists>d\<in>set ds. d_action d = ''defer'') then Approved
                                  else if (\<exists>d\<in>set ds. d_action d = ''approve'')
                                     \<and> (\<exists>d\<in>set ds. d_action d = ''defer'') then Partial_approved
                                  else Rejected)\<rparr>
                          else p) (proposals s))
         \<and> (\<not> (\<forall>d\<in>set ds. d_action d \<in> {''approve'', ''defer'', ''reject''}) \<longrightarrow>
            fst (owner_action s u i (Some ds)) = s
            \<and> (\<exists>e. snd (owner_action s u i (Some ds)) = Inl e))"
proof -
  from assms have auth: "authorize [Owner] u" by (simp add: authorize_def)
  have valid: "list_all valid_owner_action ds
                = (\<forall>d\<in>set ds. d_action d \<in> {''approve'', ''defer'', ''reject''})"
    by (simp add: list_all_iff valid_owner_action_def)
  have flags: "approves ds = (\<exists>d\<in>set ds. d_action d = ''approve'')"
    "defers ds = (\<exists>d\<in>set ds. d_action d = ''defer'')"
    by (simp_all add: approves_def defers_def list_ex_iff)
  have ok: "snd (owner_action s u i (Some ds)) = Inr ()
            \<and> proposals (fst (owner_action s u i (Some ds)))
              = map (\<lambda>p. if p_id p = i
                          then p\<lparr>p_status :=
                                 (if approves ds \<and> \<not> defers ds then Approved
                                  else if approves ds \<and> defers ds then Partial_approved
                                  else Rejected)\<rparr>
                          else p) (proposals s)"
    if "list_all valid_owner_action ds"
  proof -
    from owner_loop_flags [OF that, of "proposal_items s" False False]
    obtain its' where "owner_loop ds (proposal_items s, False, False) = Inr (its', approves ds, defers ds)"
      by auto
    with auth show ?thesis
      by (simp add: owner_action_def transaction_def new_status_def update_where_def)
  qed
  have ko: "fst (owner_action s u i (Some ds)) = s \<and> (\<exists>e. snd (owner_action s u i (Some ds)) = Inl e)"
    if "\<not> list_all valid_owner_action ds"
  proof -
    from owner_loop_invalid [OF that, of "(proposal_items s, False, False)"]
    obtain e where "owner_loop ds (proposal_items s, False, False) = Inl e" by auto
    with auth show ?thesis
      by (simp add: owner_action_def transaction_def)
  qed
  from ok ko show ?thesis
    unfolding valid flags by blast
qed

text \<open>
  On the example ledger, for proposal 2: defer and approve give partially approved,
  reject and approve give approved, two defers give rejected, and an entry with the
  action hold is refused.
\<close>

theorem owner_action_status_witness:
  "map p_status (proposals (fst (owner_action ex_ledger ex_owner 2
         (Some [ex_decision 20 ''defer'' None, ex_decision 21 ''approve'' (Some 700)]))))
     = [Draft, Partial_approved]
   \<and> map p_status (proposals (fst (owner_action ex_ledger ex_owner 2
         (Some [ex_decision 20 ''reject'' None, ex_decision 21 ''approve'' (Some 700)]))))
     = [Draft, Approved]
   \<and> map p_status (proposals (fst (owner_action ex_ledger ex_owner 2
         (Some [ex_decision 20 ''defer'' None, ex_decision 21 ''defer'' None]))))
     = [Draft, Rejected]
   \<and> owner_action ex_ledger ex_owner 2
         (Some [ex_decision 20 ''approve'' (Some 5000), ex_decision 21 ''hold'' None])
     = (ex_ledger, Inl (Thrown ''Invalid action: hold''))"
  using owner_action_status [of ex_owner "[ex_decision 20 ''defer'' None, ex_decision 21 ''approve'' (Some 700)]" ex_ledger 2]
    owner_action_status [of ex_owner "[ex_decision 20 ''reject'' None, ex_decision 21 ''approve'' (Some 700)]" ex_ledger 2]
    owner_action_status [of ex_owner "[ex_decision 20 ''defer'' None, ex_decision 21 ''defer'' None]" ex_ledger 2]
    owner_action_status [of ex_owner "[ex_decision 20 ''approve'' (Some 5000), ex_decision 21 ''hold'' None]" ex_ledger 2]
  by (simp add: ex_ledger_def ex_bill_def ex_item_def ex_owner_def ex_decision_def owner_action_def authorize_def transaction_def
      new_status_def update_where_def)

section \<open>Bills available for a proposal\<close>

lemma set_join_vendor:
  "set (join_vendor vs b) = (if \<exists>v\<in>set vs. v_id v = ib_vendor_id b then {b} else {})"
  by (auto simp: join_vendor_def)

lemma base_where_iff:
  "base_where s b \<longleftrightarrow>
     ib_status b = B_active \<and> ib_payment_status b \<noteq> PS_paid
     \<and> \<not> (\<exists>it\<in>set (proposal_items s). \<exists>p\<in>set (proposals s).
            pi_bill_id it = ib_id b \<and> pi_proposal_id it = p_id p
            \<and> p_status p \<notin> {Rejected, Completed} \<and> pi_status it \<notin> {Owner_rejected, Item_paid})"
  by (auto simp: base_where_def committed_item_def list_ex_iff)

text \<open>
  C6. When every bill refers to a vendor row (the foreign key of \<open>inward_bills\<close>), the
  query without \<open>vendor_id\<close> and \<open>filter\<close> answers exactly the bills that are active, not
  paid, and have no item whose proposal is neither rejected nor completed and whose own
  status is neither owner_rejected nor paid. So a bill with an open item of a live
  proposal is left out, and it is back once the item is owner_rejected or paid, or its
  proposal rejected or completed. A \<open>vendor_id\<close> and the filters overdue, due_today and
  due_week only narrow this answer. (With \<open>filter=carry_forward\<close> the query has another
  WHERE clause: it lists the active, unpaid bills that have a carried-forward item.)
\<close>

theorem available_bills_rule:
  assumes fk: "\<forall>b\<in>set (inward_bills s). \<exists>v\<in>set (vendors s). v_id v = ib_vendor_id b"
  shows "\<exists>rows. available_bills s None None today = Inr rows
     \<and> (\<forall>b. b \<in> set rows \<longleftrightarrow>
           b \<in> set (inward_bills s)
           \<and> ib_status b = B_active \<and> ib_payment_status b \<noteq> PS_paid
           \<and> \<not> (\<exists>it\<in>set (proposal_items s). \<exists>p\<in>set (proposals s).
                  pi_bill_id it = ib_id b \<and> pi_proposal_id it = p_id p
                  \<and> p_status p \<notin> {Rejected, Completed}
                  \<and> pi_status it \<notin> {Owner_rejected, Item_paid}))
     \<and> (\<forall>vendorId flt rows'. flt \<noteq> Some ''carry_forward''
           \<and> available_bills s vendorId flt today = Inr rows' \<longrightarrow> set rows' \<subseteq> set rows)"
proof -
  define rows where "rows = sort_key ib_due_date (concat (map (join_vendor (vendors s))
                 (filter (where_clause s None None today) (inward_bills s))))"
  have r: "available_bills s None None today = Inr rows"
    by (simp add: available_bills_def rows_def)
  have w: "where_clause s None None today = base_where s"
    by (rule ext) (simp add: where_clause_def)
  have m: "set rows = {b \<in> set (inward_bills s). base_where s b}"
    using fk by (auto simp: rows_def set_join_vendor w)
  have sub: "set rows' \<subseteq> set rows"
    if "flt \<noteq> Some ''carry_forward'' \<and> available_bills s vendorId flt today = Inr rows'"
    for vendorId flt rows'
  proof -
    from that have "rows' = sort_key ib_due_date (concat (map (join_vendor (vendors s))
                 (filter (where_clause s vendorId flt today) (inward_bills s))))"
      by (auto simp: available_bills_def split: if_splits)
    moreover have "where_clause s vendorId flt today b \<Longrightarrow> base_where s b" for b
      using that by (simp add: where_clause_def)
    ultimately show ?thesis
      unfolding m by (auto simp: set_join_vendor split: if_splits)
  qed
  have iff: "b \<in> set rows \<longleftrightarrow>
           b \<in> set (inward_bills s)
           \<and> ib_status b = B_active \<and> ib_payment_status b \<noteq> PS_paid
           \<and> \<not> (\<exists>it\<in>set (proposal_items s). \<exists>p\<in>set (proposals s).
                  pi_bill_id it = ib_id b \<and> pi_proposal_id it = p_id p
                  \<and> p_status p \<notin> {Rejected, Completed}
                  \<and> pi_status it \<notin> {Owner_rejected, Item_paid})" for b
    unfolding m base_where_iff by simp
  show ?thesis
  proof (intro exI [of _ rows] conjI allI impI)
    show "available_bills s None None today = Inr rows" by (rule r)
  next
    fix b show "b \<in> set rows \<longleftrightarrow>
           b \<in> set (inward_bills s)
           \<and> ib_status b = B_active \<and> ib_payment_status b \<noteq> PS_paid
           \<and> \<not> (\<exists>it\<in>set (proposal_items s). \<exists>p\<in>set (proposals s).
                  pi_bill_id it = ib_id b \<and> pi_proposal_id it = p_id p
                  \<and> p_status p \<notin> {Rejected, Completed}
                  \<and> pi_status it \<notin> {Owner_rejected, Item_paid})"
      by (rule iff)
  next
    fix vendorId flt rows'
    assume "flt \<noteq> Some ''carry_forward'' \<and> available_bills s vendorId flt today = Inr rows'"
    then show "set rows' \<subseteq> set rows" by (rule sub)
  qed
qed

text \<open>
  On the example ledger every bill has an open item of a live proposal, so no bill is
  available. After the owner rejects item 20 and approves item 21 of proposal 2, bill 2
  (of the rejected item) is available again and bill 3 is not.
\<close>

theorem available_bills_rule_witness:
  "available_bills ex_ledger None None 50 = Inr []
   \<and> available_bills
       (fst (owner_action ex_ledger ex_owner 2
               (Some [ex_decision 20 ''reject'' None, ex_decision 21 ''approve'' (Some 700)])))
       None None 50 = Inr [ex_bill 2 5000 10 15]"
  using available_bills_rule [of ex_ledger 50]
    available_bills_rule [of "fst (owner_action ex_ledger ex_owner 2
               (Some [ex_decision 20 ''reject'' None, ex_decision 21 ''approve'' (Some 700)]))" 50]
  by (simp add: ex_ledger_def ex_bill_def ex_item_def ex_owner_def ex_decision_def owner_action_def authorize_def transaction_def
      new_status_def update_where_def available_bills_def where_clause_def base_where_def
      committed_item_def join_vendor_def)

section \<open>Payment batch generation\<close>

lemma foldl_plus: "foldl (\<lambda>acc a. acc + a) (a::int) xs = a + sum_list xs"
  by (induction xs arbitrary: a) auto

lemma those_map_Some:
  "\<forall>x\<in>set xs. f x \<noteq> None \<Longrightarrow> those (map f xs) = Some (map (\<lambda>x. the (f x)) xs)"
  by (induction xs) auto

lemma join_one:
  "\<forall>it\<in>set xs. length (filter (\<lambda>b. pi_bill_id it = ib_id b) bs) = 1 \<Longrightarrow>
   concat (map (\<lambda>it. map (\<lambda>b. it) (filter (\<lambda>b. pi_bill_id it = ib_id b) bs)) xs) = xs"
proof (induction xs)
  case Nil
  then show ?case by simp
next
  case (Cons it xs)
  then have "length (filter (\<lambda>b. pi_bill_id it = ib_id b) bs) = 1" by simp
  then obtain b where "filter (\<lambda>b. pi_bill_id it = ib_id b) bs = [b]"
    by (cases "filter (\<lambda>b. pi_bill_id it = ib_id b) bs") auto
  with Cons show ?case by simp
qed

lemma map_enumerate_zip:
  "map (\<lambda>(k, it, a). h k it a) (enumerate n (zip xs (map f xs)))
     = map (\<lambda>(k, it). h k it (f it)) (enumerate n xs)"
  by (induction xs arbitrary: n) auto

lemma map_enumerate_drop:
  "map (\<lambda>(k, it). g it) (enumerate n xs) = map g xs"
  by (induction xs arbitrary: n) auto

lemma approved_items_fk:
  assumes "\<forall>it\<in>set (proposal_items s). length (filter (\<lambda>b. pi_bill_id it = ib_id b) (inward_bills s)) = 1"
  shows "approved_items s pid = owner_approved_items s pid"
proof -
  from assms have "\<forall>it\<in>set (owner_approved_items s pid).
          length (filter (\<lambda>b. pi_bill_id it = ib_id b) (inward_bills s)) = 1"
    by (simp add: owner_approved_items_def)
  from join_one [OF this] show ?thesis
    by (simp add: approved_items_def owner_approved_items_def)
qed

lemma create_from_proposal_none:
  assumes "authorize [Accounts, Owner] u"
    and "filter (\<lambda>p. p_id p = pid \<and> (p_status p = Approved \<or> p_status p = Partial_approved)) (proposals s) \<noteq> []"
    and "approved_items s pid = []"
  shows "create_from_proposal s u (Some pid) (Some bank) = (s, Inl (Thrown ''No approved items found''))"
  using assms by (simp add: create_from_proposal_def transaction_def)

lemma create_from_proposal_some:
  assumes "authorize [Accounts, Owner] u"
    and "filter (\<lambda>p. p_id p = pid \<and> (p_status p = Approved \<or> p_status p = Partial_approved)) (proposals s) \<noteq> []"
    and "approved_items s pid = rows" and "rows \<noteq> []"
    and "those (map pi_owner_amount rows) = Some amounts"
  shows "create_from_proposal s u (Some pid) (Some bank) =
    (s\<lparr> payments := payments s @ [new_payment (next_id s) pid (sum_list amounts) bank (user_id u)],
        payment_details := payment_details s @
           map (\<lambda>(k, it, a). new_payment_detail (Suc (next_id s) + k) (next_id s) it a)
                           (enumerate 0 (zip rows amounts)),
        proposals := update_where (\<lambda>p. p_id p = pid) (\<lambda>p. p\<lparr>p_status := Completed\<rparr>) (proposals s),
        next_id := Suc (next_id s) + length rows \<rparr>,
     Inr (new_payment (next_id s) pid (sum_list amounts) bank (user_id u)))"
  using assms by (simp add: create_from_proposal_def transaction_def Let_def foldl_plus new_payment_def)

text \<open>
  C2 as stated fails for an owner-approved item without an owner amount. The owner action
  stores the \<open>amount\<close> of the request as it comes, and a request may leave it out. On
  the example ledger the owner approves item 10 of proposal 1 without an amount: the
  proposal is approved and has an owner-approved item, and batch generation for it fails
  and leaves the ledger as it was.
\<close>

theorem batch_without_owner_amount_counterexample:
  "map p_status
     (filter (\<lambda>p. p_id p = 1)
        (proposals (fst (owner_action ex_ledger ex_owner 1 (Some [ex_decision 10 ''approve'' None])))))
     = [Approved]
   \<and> map (\<lambda>it. (pi_id it, pi_owner_status it, pi_owner_amount it))
       (owner_approved_items
          (fst (owner_action ex_ledger ex_owner 1 (Some [ex_decision 10 ''approve'' None]))) 1)
     = [(10, O_approved, None)]
   \<and> create_from_proposal
       (fst (owner_action ex_ledger ex_owner 1 (Some [ex_decision 10 ''approve'' None])))
       ex_accounts (Some 1) (Some 5)
     = (fst (owner_action ex_ledger ex_owner 1 (Some [ex_decision 10 ''approve'' None])),
        Inl null_amount)"
  by (simp add: ex_ledger_def ex_bill_def ex_item_def ex_owner_def ex_accounts_def ex_decision_def
      owner_action_def authorize_def transaction_def new_status_def update_where_def
      owner_approved_items_def create_from_proposal_def approved_items_def)

text \<open>
  C2, amended: the owner-approved items of the proposal all carry an owner amount. Let
  the caller have the accounts or the owner role, let the proposal be approved or
  partially approved, and let every item refer to exactly one bill row (the foreign key
  of \<open>proposal_items\<close>). If the proposal has an owner-approved item, batch generation
  succeeds: it adds exactly one payment, whose total is the sum of the owner amounts of
  those items (the proposed amounts play no part) and equals the sum of the new details'
  amounts; it adds exactly one pending detail without UTR per owner-approved item, in
  order, with the item's bill and owner amount; and it sets the proposal to completed. If
  the proposal has no owner-approved item, it fails with the error 'No approved items
  found' and the ledger is unchanged.
\<close>

theorem payment_batch_generation:
  assumes role: "user_role u = Accounts \<or> user_role u = Owner"
    and appr: "\<exists>p\<in>set (proposals s). p_id p = pid \<and> (p_status p = Approved \<or> p_status p = Partial_approved)"
    and fk: "\<forall>it\<in>set (proposal_items s).
               length (filter (\<lambda>b. pi_bill_id it = ib_id b) (inward_bills s)) = 1"
    and amt: "\<forall>it\<in>set (owner_approved_items s pid). pi_owner_amount it \<noteq> None"
  shows "(owner_approved_items s pid \<noteq> [] \<longrightarrow>
           (\<exists>pay ds.
              create_from_proposal s u (Some pid) (Some bank)
                = (s\<lparr> payments := payments s @ [pay],
                      payment_details := payment_details s @ ds,
                      proposals := map (\<lambda>p. if p_id p = pid then p\<lparr>p_status := Completed\<rparr> else p)
                                     (proposals s),
                      next_id := Suc (next_id s) + length ds \<rparr>, Inr pay)
              \<and> pay_total_amount pay
                  = sum_list (map (\<lambda>it. the (pi_owner_amount it)) (owner_approved_items s pid))
              \<and> pay_total_amount pay = sum_list (map pd_amount ds)
              \<and> pay_proposal_id pay = Some pid \<and> pay_bank_account_id pay = bank
              \<and> pay_status pay = Pay_pending
              \<and> map (\<lambda>d. (pd_payment_id d, pd_proposal_item_id d, pd_bill_id d, pd_amount d,
                           pd_utr_number d, pd_status d)) ds
                  = map (\<lambda>it. (pay_id pay, Some (pi_id it), pi_bill_id it, the (pi_owner_amount it),
                               None, D_pending)) (owner_approved_items s pid)))
       \<and> (owner_approved_items s pid = [] \<longrightarrow>
            create_from_proposal s u (Some pid) (Some bank)
              = (s, Inl (Thrown ''No approved items found'')))"
proof -
  let ?rows = "owner_approved_items s pid"
  let ?amounts = "map (\<lambda>it. the (pi_owner_amount it)) ?rows"
  from role have auth: "authorize [Accounts, Owner] u"
    by (auto simp: authorize_def)
  from appr have found: "filter (\<lambda>p. p_id p = pid \<and> (p_status p = Approved \<or> p_status p = Partial_approved))
               (proposals s) \<noteq> []"
    by (auto simp: filter_empty_conv)
  have rows: "approved_items s pid = ?rows"
    by (rule approved_items_fk [OF fk])
  have th: "those (map pi_owner_amount ?rows) = Some ?amounts"
    by (rule those_map_Some [OF amt])
  have none: "create_from_proposal s u (Some pid) (Some bank)
              = (s, Inl (Thrown ''No approved items found''))" if "?rows = []"
    using create_from_proposal_none [OF auth found] rows that by simp
  have some: "\<exists>pay ds.
              create_from_proposal s u (Some pid) (Some bank)
                = (s\<lparr> payments := payments s @ [pay],
                      payment_details := payment_details s @ ds,
                      proposals := map (\<lambda>p. if p_id p = pid then p\<lparr>p_status := Completed\<rparr> else p)
                                     (proposals s),
                      next_id := Suc (next_id s) + length ds \<rparr>, Inr pay)
              \<and> pay_total_amount pay = sum_list ?amounts
              \<and> pay_total_amount pay = sum_list (map pd_amount ds)
              \<and> pay_proposal_id pay = Some pid \<and> pay_bank_account_id pay = bank
              \<and> pay_status pay = Pay_pending
              \<and> map (\<lambda>d. (pd_payment_id d, pd_proposal_item_id d, pd_bill_id d, pd_amount d,
                           pd_utr_number d, pd_status d)) ds
                  = map (\<lambda>it. (pay_id pay, Some (pi_id it), pi_bill_id it, the (pi_owner_amount it),
                               None, D_pending)) ?rows" if ne: "?rows \<noteq> []"
  proof -
    define pay where "pay = new_payment (next_id s) pid (sum_list ?amounts) bank (user_id u)"
    define ds where "ds = map (\<lambda>(k, it, a). new_payment_detail (Suc (next_id s) + k) (next_id s) it a)
                           (enumerate 0 (zip ?rows ?amounts))"
    have ds': "ds = map (\<lambda>(k, it). new_payment_detail (Suc (next_id s) + k) (next_id s) it
                                    (the (pi_owner_amount it))) (enumerate 0 ?rows)"
      unfolding ds_def by (rule map_enumerate_zip)
    have len: "length ds = length ?rows"
      by (simp add: ds_def)
    have res: "create_from_proposal s u (Some pid) (Some bank)
                = (s\<lparr> payments := payments s @ [pay],
                      payment_details := payment_details s @ ds,
                      proposals := map (\<lambda>p. if p_id p = pid then p\<lparr>p_status := Completed\<rparr> else p)
                                     (proposals s),
                      next_id := Suc (next_id s) + length ds \<rparr>, Inr pay)"
      using create_from_proposal_some [OF auth found rows ne th, of bank]
      by (simp add: pay_def ds_def update_where_def len)
    have proj: "map (\<lambda>d. (pd_payment_id d, pd_proposal_item_id d, pd_bill_id d, pd_amount d,
                           pd_utr_number d, pd_status d)) ds
                  = map (\<lambda>it. (pay_id pay, Some (pi_id it), pi_bill_id it, the (pi_owner_amount it),
                               None, D_pending)) ?rows"
    proof -
      have "map (\<lambda>d. (pd_payment_id d, pd_proposal_item_id d, pd_bill_id d, pd_amount d,
                           pd_utr_number d, pd_status d)) ds
            = map (\<lambda>(k, it). (pay_id pay, Some (pi_id it), pi_bill_id it, the (pi_owner_amount it),
                               None, D_pending)) (enumerate 0 ?rows)"
        unfolding ds' by (simp add: new_payment_detail_def pay_def new_payment_def split_def)
      then show ?thesis by (simp add: map_enumerate_drop)
    qed
    have amounts: "map pd_amount ds = ?amounts"
    proof -
      have "map pd_amount ds = map (\<lambda>(k, it). the (pi_owner_amount it)) (enumerate 0 ?rows)"
        unfolding ds' by (simp add: new_payment_detail_def split_def)
      then show ?thesis by (simp add: map_enumerate_drop)
    qed
    from res proj amounts show ?thesis
      by (intro exI [of _ pay] exI [of _ ds]) (simp add: pay_def new_payment_def)
  qed
  from none some show ?thesis by blast
qed

text \<open>
  On the example ledger after the approval of proposal 1 at 9500 (proposed: 10000), the
  batch is one payment of 9500 with one detail of 9500 for bill 1. When the owner's
  approval names an item of another proposal, proposal 1 is approved without an approved
  item of its own and the batch is refused.
\<close>

theorem payment_batch_generation_witness:
  "create_from_proposal ex_approved ex_accounts (Some 1) (Some 5) = (ex_batched, Inr ex_payment)
   \<and> map p_status (proposals (fst (owner_action ex_ledger ex_owner 1
                                      (Some [ex_decision 21 ''approve'' (Some 700)]))))
       = [Approved, Under_review]
   \<and> snd (create_from_proposal
            (fst (owner_action ex_ledger ex_owner 1 (Some [ex_decision 21 ''approve'' (Some 700)])))
            ex_accounts (Some 1) (Some 5))
       = Inl (Thrown ''No approved items found'')"
  using payment_batch_generation [of ex_accounts ex_approved 1 5]
    payment_batch_generation [of ex_accounts
      "fst (owner_action ex_ledger ex_owner 1 (Some [ex_decision 21 ''approve'' (Some 700)]))" 1 5]
  by (simp add: ex_ledger_def ex_bill_def ex_item_def ex_owner_def ex_accounts_def ex_decision_def ex_approved_def
      ex_batched_def ex_payment_def ex_detail_def create_from_proposal_def authorize_def transaction_def update_where_def
      approved_items_def new_payment_def new_payment_detail_def enumerate_eq_zip Let_def
      owner_action_def new_status_def)

section \<open>Completion of a proposal\<close>

lemma completed_update_where:
  assumes "list_ex (\<lambda>p. p_id p = pid \<and> p_status p = Completed) (update_where c f ps)"
    and "\<And>p. p_status (f p) \<noteq> Completed"
  shows "list_ex (\<lambda>p. p_id p = pid \<and> p_status p = Completed) ps"
  using assms by (auto simp: update_where_def list_ex_iff split: if_splits)

lemma completed_delete_where:
  "list_ex P (delete_where c ps) \<Longrightarrow> list_ex P ps"
  by (auto simp: delete_where_def list_ex_iff)

lemma fst_outcome [simp]: "fst (outcome r) = fst r"
  by (simp add: outcome_def)

lemma snd_outcome_Inr [simp]: "(snd (outcome r) = Inr ()) = (\<exists>x. snd r = Inr x)"
  by (cases "snd r") (auto simp: outcome_def)

lemma inward_keeps_proposals:
  "proposals (fst (create_inward_bill s u r)) = proposals s"
  "proposals (fst (update_inward_bill s u i upd)) = proposals s"
  "proposals (fst (cancel_inward_bill s u i reason)) = proposals s"
  by (auto simp: create_inward_bill_def update_inward_bill_def cancel_inward_bill_def Let_def
      split: option.splits)

lemma settle_detail_proposals: "proposals (settle_detail i e s) = proposals s"
  by (simp add: settle_detail_def Let_def split: option.splits)

lemma foldl_settle_proposals:
  "proposals (foldl (\<lambda>s e. settle_detail i e s) s ds) = proposals s"
  by (induction ds arbitrary: s) (simp_all add: settle_detail_proposals)

lemma update_utr_keeps_proposals:
  "proposals (fst (update_utr s u i details)) = proposals s"
  by (simp add: update_utr_def transaction_def set_payment_status_def foldl_settle_proposals
      split: option.splits)

lemma create_proposal_completed:
  "is_completed (fst (create_proposal s u r)) pid \<Longrightarrow> is_completed s pid"
  by (auto simp: create_proposal_def transaction_def is_completed_def new_proposal_def Let_def
      split: if_splits)

lemma submit_completed:
  "is_completed (fst (submit_proposal s u i)) pid \<Longrightarrow> is_completed s pid"
  unfolding is_completed_def submit_proposal_def Let_def
  by (auto split: if_splits option.splits dest!: completed_update_where)

lemma accounts_action_completed:
  "is_completed (fst (accounts_action s u i items)) pid \<Longrightarrow> is_completed s pid"
  unfolding is_completed_def accounts_action_def transaction_def
  by (auto split: if_splits option.splits sum.splits dest!: completed_update_where)

lemma new_status_not_completed: "new_status a b \<noteq> Completed"
  by (simp add: new_status_def)

lemma owner_action_completed:
  "is_completed (fst (owner_action s u i items)) pid \<Longrightarrow> is_completed s pid"
  unfolding is_completed_def owner_action_def transaction_def
  by (auto simp: new_status_not_completed split: if_splits option.splits sum.splits
      dest!: completed_update_where)

lemma delete_completed:
  "is_completed (fst (delete_proposal s u i)) pid \<Longrightarrow> is_completed s pid"
  unfolding is_completed_def delete_proposal_def transaction_def Let_def
  by (auto split: if_splits list.splits dest!: completed_delete_where)

lemma create_from_proposal_completed:
  assumes "is_completed (fst (create_from_proposal s u proposal_id bank)) pid"
    and "\<not> is_completed s pid"
  shows "proposal_id = Some pid \<and> (\<exists>b. bank = Some b) \<and> (\<exists>pay. snd (create_from_proposal s u proposal_id bank) = Inr pay)"
  using assms
  unfolding is_completed_def create_from_proposal_def transaction_def Let_def
  by (auto simp: update_where_def list_ex_iff split: if_splits option.splits)

lemma create_from_proposal_refuses_completed:
  assumes "\<forall>p\<in>set (proposals s). p_id p = pid \<longrightarrow> p_status p = Completed"
  shows "\<exists>e. create_from_proposal s u (Some pid) bank = (s, Inl e)"
    and "authorize [Accounts, Owner] u \<Longrightarrow>
         create_from_proposal s u (Some pid) (Some b)
           = (s, Inl (Thrown ''Proposal not found or not approved''))"
proof -
  from assms have none: "filter (\<lambda>p. p_id p = pid \<and> (p_status p = Approved \<or> p_status p = Partial_approved))
               (proposals s) = []"
    by (auto simp: filter_empty_conv)
  then show "\<exists>e. create_from_proposal s u (Some pid) bank = (s, Inl e)"
    by (cases bank) (simp_all add: create_from_proposal_def transaction_def)
  assume "authorize [Accounts, Owner] u"
  with none show "create_from_proposal s u (Some pid) (Some b)
           = (s, Inl (Thrown ''Proposal not found or not approved''))"
    by (simp add: create_from_proposal_def transaction_def)
qed

text \<open>
  C3. When the proposal with this id is completed, batch generation for it fails and
  nothing changes (no payment and no detail is added); for a caller with the accounts or
  the owner role who names a bank account the error is 'Proposal not found or not
  approved', which is what the spec calls a ConflictError. And whenever a request makes a
  proposal completed that was not completed before, that request is a batch generation
  for this proposal, and it succeeded.
\<close>

theorem completed_only_by_batch:
  "((\<exists>p\<in>set (proposals s). p_id p = pid)
      \<and> (\<forall>p\<in>set (proposals s). p_id p = pid \<longrightarrow> p_status p = Completed) \<longrightarrow>
      (\<exists>e. create_from_proposal s u (Some pid) bank = (s, Inl e))
      \<and> (authorize [Accounts, Owner] u \<longrightarrow>
           create_from_proposal s u (Some pid) (Some b)
             = (s, Inl (Thrown ''Proposal not found or not approved''))))
   \<and> (is_completed (fst (handle s u r)) pid \<and> \<not> is_completed s pid \<longrightarrow>
      (\<exists>b. r = Create_from_proposal (Some pid) (Some b)) \<and> snd (handle s u r) = Inr ())"
proof (intro conjI impI)
  assume h: "(\<exists>p\<in>set (proposals s). p_id p = pid)
      \<and> (\<forall>p\<in>set (proposals s). p_id p = pid \<longrightarrow> p_status p = Completed)"
  then show "\<exists>e. create_from_proposal s u (Some pid) bank = (s, Inl e)"
    using create_from_proposal_refuses_completed(1) by blast
  assume "authorize [Accounts, Owner] u"
  with h show "create_from_proposal s u (Some pid) (Some b)
             = (s, Inl (Thrown ''Proposal not found or not approved''))"
    using create_from_proposal_refuses_completed(2) by blast
next
  assume h: "is_completed (fst (handle s u r)) pid \<and> \<not> is_completed s pid"
  then have c: "is_completed (fst (handle s u r)) pid" and n: "\<not> is_completed s pid"
    by simp_all
  have r: "\<exists>pi b. r = Create_from_proposal pi b"
  proof (cases r)
    case (Create_inward x)
    with c n show ?thesis by (simp add: is_completed_def inward_keeps_proposals)
  next
    case (Update_inward i upd)
    with c n show ?thesis by (simp add: is_completed_def inward_keeps_proposals)
  next
    case (Cancel_inward i reason)
    with c n show ?thesis by (simp add: is_completed_def inward_keeps_proposals)
  next
    case (Create_proposal x)
    with c n show ?thesis using create_proposal_completed by auto
  next
    case (Submit_proposal i)
    with c n show ?thesis using submit_completed by auto
  next
    case (Accounts_action i items)
    with c n show ?thesis using accounts_action_completed by auto
  next
    case (Owner_action i items)
    with c n show ?thesis using owner_action_completed by auto
  next
    case (Delete_proposal i)
    with c n show ?thesis using delete_completed by auto
  next
    case (Create_from_proposal pi b)
    then show ?thesis by simp
  next
    case (Update_utr i details)
    with c n show ?thesis by (simp add: is_completed_def update_utr_keeps_proposals)
  qed
  then obtain pi b where req: "r = Create_from_proposal pi b" by blast
  with c have "is_completed (fst (create_from_proposal s u pi b)) pid" by simp
  from create_from_proposal_completed [OF this n] req
  show "\<exists>b. r = Create_from_proposal (Some pid) (Some b)" and "snd (handle s u r) = Inr ()"
    by auto
qed

text \<open>
  On the example: the batch for the approved proposal 1 completes it, and a second batch
  for it is refused and leaves the ledger as it is.
\<close>

theorem completed_only_by_batch_witness:
  "create_from_proposal ex_batched ex_accounts (Some 1) (Some 5)
     = (ex_batched, Inl (Thrown ''Proposal not found or not approved''))
   \<and> \<not> is_completed ex_approved 1
   \<and> is_completed (fst (handle ex_approved ex_accounts (Create_from_proposal (Some 1) (Some 5)))) 1
   \<and> snd (handle ex_approved ex_accounts (Create_from_proposal (Some 1) (Some 5))) = Inr ()"
  using completed_only_by_batch [where s = ex_batched and pid = 1 and u = ex_accounts
        and bank = "Some 5" and b = 5]
    completed_only_by_batch [where s = ex_approved and pid = 1 and u = ex_accounts
        and r = "Create_from_proposal (Some 1) (Some 5)"]
  by (simp add: ex_ledger_def ex_bill_def ex_item_def ex_accounts_def ex_approved_def ex_batched_def
      ex_payment_def ex_detail_def is_completed_def create_from_proposal_def authorize_def transaction_def
      update_where_def approved_items_def new_payment_def new_payment_detail_def
      enumerate_eq_zip Let_def outcome_def)

section \<open>UTR settlement\<close>

lemma mark_keeps [simp]:
  "pd_id (mark i e d) = pd_id d" "pd_payment_id (mark i e d) = pd_payment_id d"
  "pd_bill_id (mark i e d) = pd_bill_id d" "pd_amount (mark i e d) = pd_amount d"
  "pd_proposal_item_id (mark i e d) = pd_proposal_item_id d"
  by (simp_all add: mark_def)






























section \<open>The paid amount of a bill\<close>

text \<open>
  C5. \<open>0 \<le> paid_amount \<le> amount\<close> is to hold after every operation, repeated
  settlement of the same payment detail included; a repeated settlement breaks it. On the settled example ledger
  bill 1 has the amount 10000 and the paid amount 9500. Sending the same UTR entry for
  detail 101 once more succeeds and adds the detail's 9500 again: the paid amount is
  19000.
\<close>

theorem settled_twice_exceeds_amount:
  "map (\<lambda>b. (ib_amount b, ib_paid_amount b))
     (filter (\<lambda>b. ib_id b = 1) (inward_bills ex_settled)) = [(10000, 9500)]
   \<and> map (\<lambda>b. (ib_amount b, ib_paid_amount b))
     (filter (\<lambda>b. ib_id b = 1)
        (inward_bills (fst (update_utr ex_settled ex_accounts 100 (Some [ex_utr])))))
     = [(10000, 19000)]
   \<and> snd (update_utr ex_settled ex_accounts 100 (Some [ex_utr])) = Inr ()"
  by (simp add: ex_ledger_def ex_bill_def ex_item_def ex_accounts_def ex_approved_def ex_batched_def ex_payment_def
      ex_detail_def ex_utr_def ex_settled_def update_utr_def authorize_def transaction_def update_where_def
      settle_detail_def set_payment_status_def pending_count_def count_where_def truthy_def)

section \<open>The example ledgers are reached by requests\<close>

text \<open>
  The approved example ledger is what the handlers make of the first one: the purchase
  user submits proposal 1, accounts approve item 10 at 9500, the owner approves it at
  9500.
\<close>

lemma ex_approved_reached:
  "fst (owner_action
         (fst (accounts_action (fst (submit_proposal ex_ledger ex_purchase 1)) ex_accounts 1
                 (Some [ex_decision 10 ''approve'' (Some 9500)])))
         ex_owner 1 (Some [ex_decision 10 ''approve'' (Some 9500)]))
   = ex_approved"
  by (simp add: ex_ledger_def ex_bill_def ex_item_def ex_purchase_def ex_accounts_def ex_owner_def ex_decision_def
      ex_approved_def submit_proposal_def accounts_action_def owner_action_def authorize_def
      transaction_def update_where_def new_status_def)

end
